theory Spec2Isabelle
  imports Complex_Main "HOL-Library.Sublist" "HOL-Library.Monad_Syntax"
begin

section \<open>Canvas planner and study-guide curator: a shallow embedding\<close>

text \<open>
  The development embeds the decision logic of two scripts:
  \<^item> \<^verbatim>\<open>planners/daily-canvas-planner.py\<close>: \<^verbatim>\<open>get_canvas_all_items\<close>, the collection loop of
    \<^verbatim>\<open>main\<close>, \<^verbatim>\<open>filter_due_next_3_days\<close> and \<^verbatim>\<open>is_major_test\<close>;
  \<^item> \<^verbatim>\<open>study_guides/auto-study-guide-generator.py\<close>: \<^verbatim>\<open>clean_html\<close>,
    \<^verbatim>\<open>get_modules_before_exam\<close>, \<^verbatim>\<open>get_page_content\<close>, \<^verbatim>\<open>get_all_content_before_exam\<close> and
    \<^verbatim>\<open>get_quiz_questions\<close>.

  Network replies are inputs of the model. Python dictionaries with a fixed set of keys
  are records. A field has the type the code's own default gives it (\<^verbatim>\<open>.get('name', '')\<close>: a
  string). The fields for which Canvas sends \<^verbatim>\<open>null\<close> are options, \<open>None\<close> being Python's
  \<^verbatim>\<open>None\<close>: \<^verbatim>\<open>due_at\<close> (no deadline), \<^verbatim>\<open>description\<close> (no text) and \<^verbatim>\<open>points_possible\<close> (not
  graded). Strings are lists of characters with codes below 256.
\<close>

subsection \<open>Strings\<close>

text \<open>
  \<^verbatim>\<open>str.lower()\<close> on the ASCII letters; every other character is left as it is. The code
  uses lower-cased strings only to look for ASCII phrases in them, and no character
  between 128 and 255 becomes an ASCII character when lower-cased.
\<close>

definition lower_char :: "char \<Rightarrow> char" where
  "lower_char c =
     (case map_of (zip ''ABCDEFGHIJKLMNOPQRSTUVWXYZ'' ''abcdefghijklmnopqrstuvwxyz'') c of
        None \<Rightarrow> c
      | Some d \<Rightarrow> d)"

definition lower :: "string \<Rightarrow> string" where
  "lower s = map lower_char s"

text \<open>\<^verbatim>\<open>k in s\<close> on strings: \<open>k\<close> occurs in \<open>s\<close> as a contiguous block.\<close>

fun py_in :: "string \<Rightarrow> string \<Rightarrow> bool" where
  "py_in k [] = (k = [])"
| "py_in k (c # s) = (prefix k (c # s) \<or> py_in k s)"

text \<open>\<^verbatim>\<open>str(x)\<close> and the rendering of \<^verbatim>\<open>{x}\<close> in an f-string, for a string or \<^verbatim>\<open>None\<close>.\<close>

definition py_str :: "string option \<Rightarrow> string" where
  "py_str v = (case v of None \<Rightarrow> ''None'' | Some s \<Rightarrow> s)"

text \<open>The truth value of a string or \<^verbatim>\<open>None\<close>: \<^verbatim>\<open>None\<close> and the empty string are false.\<close>

definition truthy :: "string option \<Rightarrow> bool" where
  "truthy v = (case v of None \<Rightarrow> False | Some s \<Rightarrow> s \<noteq> [])"

subsection \<open>Work items\<close>

text \<open>The dictionary that \<^verbatim>\<open>get_canvas_all_items\<close> builds for every planner item and assignment.\<close>

record assignment =
  name :: string
  due_at :: "string option"
  points_possible :: "rat option"
  course_name :: string
  html_url :: string
  description :: "string option"

subsection \<open>\<^verbatim>\<open>is_major_test\<close>\<close>

definition major_keywords :: "string list" where
  "major_keywords = [''midterm'', ''final exam'', ''final test'', ''midterm exam'']"

text \<open>\<^verbatim>\<open>for keyword in major_keywords: if keyword in name: return True\<close>\<close>

fun keyword_loop :: "string list \<Rightarrow> string \<Rightarrow> bool" where
  "keyword_loop [] nm = False"
| "keyword_loop (keyword # rest) nm = (if py_in keyword nm then True else keyword_loop rest nm)"

text \<open>
  The condition \<^verbatim>\<open>'exam' in name and assignment.get('points_possible', 0) >= 50\<close>. The
  dictionary always has the key, so \<^verbatim>\<open>.get\<close> gives its value; \<^verbatim>\<open>and\<close> evaluates the
  comparison only when the name contains "exam", and \<^verbatim>\<open>None >= 50\<close> raises \<^verbatim>\<open>TypeError\<close>.
\<close>

datatype py_error = TypeError

definition exam_with_points :: "string \<Rightarrow> rat option \<Rightarrow> py_error + bool" where
  "exam_with_points nm points =
     (if py_in ''exam'' nm
      then (case points of None \<Rightarrow> Inl TypeError | Some p \<Rightarrow> Inr (p \<ge> 50))
      else Inr False)"

definition is_major_test :: "assignment \<Rightarrow> py_error + bool" where
  "is_major_test a =
     (let nm = lower (name a);
          descr = lower (py_str (description a))
      in if keyword_loop major_keywords nm then Inr True
         else case exam_with_points nm (points_possible a) of
                Inl e \<Rightarrow> Inl e
              | Inr high \<Rightarrow>
                  if high then Inr True
                  else if py_in ''respondus'' descr \<or> py_in ''lockdown browser'' descr
                  then Inr True
                  else Inr False)"

subsection \<open>Dates and times\<close>

text \<open>
  A \<^verbatim>\<open>datetime\<close> is its wall-clock reading, counted in microseconds (the resolution of
  Python's \<^verbatim>\<open>datetime\<close>) from the midnight before 0001-01-01, so that the day number is
  Python's proleptic ordinal. Two aware datetimes that carry the same \<^verbatim>\<open>tzinfo\<close> object are
  compared by their wall-clock readings, and adding a \<^verbatim>\<open>timedelta\<close> adds to the wall-clock
  reading; both are integer operations here. The functions below follow \<^verbatim>\<open>_is_leap\<close>,
  \<^verbatim>\<open>_days_before_year\<close>, \<^verbatim>\<open>_days_in_month\<close>, \<^verbatim>\<open>_days_before_month\<close> and \<^verbatim>\<open>_ymd2ord\<close> of the
  standard library.
\<close>

type_synonym datetime = int

definition is_leap :: "int \<Rightarrow> bool" where
  "is_leap year = (year mod 4 = 0 \<and> (year mod 100 \<noteq> 0 \<or> year mod 400 = 0))"

definition days_before_year :: "int \<Rightarrow> int" where
  "days_before_year year = (let y = year - 1 in y * 365 + y div 4 - y div 100 + y div 400)"

definition days_in_month :: "int \<Rightarrow> int \<Rightarrow> int" where
  "days_in_month year month =
     (if month = 2 \<and> is_leap year then 29
      else [31, 28, 31, 30, 31, 30, 31, 31, 30, 31, 30, 31] ! nat (month - 1))"

definition days_before_month :: "int \<Rightarrow> int \<Rightarrow> int" where
  "days_before_month year month =
     [0, 31, 59, 90, 120, 151, 181, 212, 243, 273, 304, 334] ! nat (month - 1)
       + (if month > 2 \<and> is_leap year then 1 else 0)"

definition ymd2ord :: "int \<Rightarrow> int \<Rightarrow> int \<Rightarrow> int" where
  "ymd2ord year month day = days_before_year year + days_before_month year month + day"

definition mk_datetime :: "int \<Rightarrow> int \<Rightarrow> int \<Rightarrow> int \<Rightarrow> int \<Rightarrow> int \<Rightarrow> datetime" where
  "mk_datetime year month day hour minute second =
     ((ymd2ord year month day * 24 + hour) * 60 + minute) * 60000000 + second * 1000000"

text \<open>\<^verbatim>\<open>timedelta(days=..., hours=...)\<close>, in microseconds.\<close>

definition timedelta :: "int \<Rightarrow> int \<Rightarrow> int" where
  "timedelta days hours = (days * 24 + hours) * 3600000000"

text \<open>\<^verbatim>\<open>datetime.min\<close> and \<^verbatim>\<open>datetime.max\<close>; \<^verbatim>\<open>.date()\<close> as the day number.\<close>

definition datetime_min :: datetime where
  "datetime_min = mk_datetime 1 1 1 0 0 0"

definition datetime_max :: datetime where
  "datetime_max = mk_datetime 9999 12 31 23 59 59 + 999999"

definition date_of :: "datetime \<Rightarrow> int" where
  "date_of t = t div 86400000000"

text \<open>
  A time zone is the offset it adds to a UTC reading, in microseconds. The zone database
  behind \<^verbatim>\<open>ZoneInfo("America/Los_Angeles")\<close> is not part of the repository, so the zone is a
  parameter. \<^verbatim>\<open>astimezone\<close> raises \<^verbatim>\<open>OverflowError\<close> when the local reading leaves the range
  of \<^verbatim>\<open>datetime\<close>; a raised exception is \<open>None\<close>.
\<close>

type_synonym tzinfo = "datetime \<Rightarrow> int"

definition astimezone :: "tzinfo \<Rightarrow> datetime \<Rightarrow> datetime option" where
  "astimezone tz u =
     (let l = u + tz u in if datetime_min \<le> l \<and> l \<le> datetime_max then Some l else None)"

subsection \<open>\<^verbatim>\<open>datetime.strptime(s, "%Y-%m-%dT%H:%M:%SZ")\<close>\<close>

text \<open>
  The standard library turns the format into the regular expression
  \<^verbatim>\<open>(\d\d\d\d)-(1[0-2]|0[1-9]|[1-9])-(3[0-1]|[1-2]\d|0[1-9]|[1-9]| [1-9])T\<close>
  \<^verbatim>\<open>(2[0-3]|[0-1]\d|\d):([0-5]\d|\d):(6[0-1]|[0-5]\d|\d)Z\<close>, matched ignoring case at the
  start of the string, and raises \<^verbatim>\<open>ValueError\<close> when the match fails, when text remains after
  it, or when the fields are not a date and time (\<^verbatim>\<open>year 0\<close>, a day beyond the month's end, a
  second above 59). No field can contain its separator, so the fields are the pieces
  between the separators. A raised \<^verbatim>\<open>ValueError\<close> is \<open>None\<close>.
\<close>

definition is_digit :: "char \<Rightarrow> bool" where
  "is_digit c = (c \<in> set ''0123456789'')"

definition digit_val :: "char \<Rightarrow> int" where
  "digit_val c =
     (case map_of (zip ''0123456789'' [0, 1, 2, 3, 4, 5, 6, 7, 8, 9]) c of
        None \<Rightarrow> 0
      | Some d \<Rightarrow> d)"

definition py_int :: "string \<Rightarrow> int" where
  "py_int s = foldl (\<lambda>n c. 10 * n + digit_val c) 0 s"

definition split_at :: "(char \<Rightarrow> bool) \<Rightarrow> string \<Rightarrow> (string \<times> string) option" where
  "split_at p s =
     (case dropWhile (\<lambda>c. \<not> p c) s of
        [] \<Rightarrow> None
      | c # r \<Rightarrow> Some (takeWhile (\<lambda>c. \<not> p c) s, r))"

text \<open>One or two digits with a value between \<open>lo\<close> and \<open>hi\<close>.\<close>

definition num_field :: "int \<Rightarrow> int \<Rightarrow> string \<Rightarrow> int option" where
  "num_field lo hi s =
     (if (length s = 1 \<or> length s = 2) \<and> list_all is_digit s \<and> lo \<le> py_int s \<and> py_int s \<le> hi
      then Some (py_int s) else None)"

definition year_field :: "string \<Rightarrow> int option" where
  "year_field s = (if length s = 4 \<and> list_all is_digit s then Some (py_int s) else None)"

text \<open>The day also matches a space followed by a digit from 1 to 9.\<close>

definition day_field :: "string \<Rightarrow> int option" where
  "day_field s =
     (case s of
        [c, d] \<Rightarrow>
          if c = CHR '' ''
          then (if is_digit d \<and> d \<noteq> CHR ''0'' then Some (digit_val d) else None)
          else num_field 1 31 s
      | _ \<Rightarrow> num_field 1 31 s)"

definition strptime :: "string \<Rightarrow> datetime option" where
  "strptime s = do {
     (ys, r1) \<leftarrow> split_at (\<lambda>c. c = CHR ''-'') s;
     year \<leftarrow> year_field ys;
     (ms, r2) \<leftarrow> split_at (\<lambda>c. c = CHR ''-'') r1;
     month \<leftarrow> num_field 1 12 ms;
     (ds, r3) \<leftarrow> split_at (\<lambda>c. c = CHR ''T'' \<or> c = CHR ''t'') r2;
     day \<leftarrow> day_field ds;
     (hs, r4) \<leftarrow> split_at (\<lambda>c. c = CHR '':'') r3;
     hour \<leftarrow> num_field 0 23 hs;
     (mins, r5) \<leftarrow> split_at (\<lambda>c. c = CHR '':'') r4;
     minute \<leftarrow> num_field 0 59 mins;
     (ss, r6) \<leftarrow> split_at (\<lambda>c. c = CHR ''Z'' \<or> c = CHR ''z'') r5;
     second \<leftarrow> num_field 0 61 ss;
     if r6 \<noteq> [] then None
     else if year < 1 \<or> day > days_in_month year month \<or> second > 59 then None
     else Some (mk_datetime year month day hour minute second)
   }"

text \<open>
  \<^verbatim>\<open>strptime\<close>, \<^verbatim>\<open>replace(tzinfo=timezone.utc)\<close> and \<^verbatim>\<open>astimezone(pacific_tz)\<close>: the three
  statements that both scripts run inside a \<^verbatim>\<open>try\<close> on a timestamp of the source.
\<close>

definition due_local :: "tzinfo \<Rightarrow> string \<Rightarrow> datetime option" where
  "due_local tz s = do { due_datetime_utc \<leftarrow> strptime s; astimezone tz due_datetime_utc }"

subsection \<open>\<^verbatim>\<open>filter_due_next_3_days\<close>\<close>

text \<open>
  An assignment of \<^verbatim>\<open>due_soon\<close>: the dictionary with the two keys the filter adds to it.
\<close>

record due_item =
  item :: assignment
  due_datetime_parsed :: datetime
  due_date_parsed :: int

text \<open>
  The body of the loop: what one assignment adds to \<^verbatim>\<open>due_soon\<close>. \<open>now\<close> is
  \<^verbatim>\<open>datetime.now(pacific_tz)\<close>. An exception inside the \<^verbatim>\<open>try\<close> is caught by
  \<^verbatim>\<open>except Exception\<close>, which prints and goes on to the next assignment.
\<close>

definition due_soon_entry :: "tzinfo \<Rightarrow> datetime \<Rightarrow> datetime \<Rightarrow> assignment \<Rightarrow> due_item option" where
  "due_soon_entry tz now cutoff_datetime a =
     (case due_at a of
        None \<Rightarrow> None
      | Some s \<Rightarrow>
          if s = [] then None
          else case due_local tz s of
                 None \<Rightarrow> None
               | Some due_datetime_pacific \<Rightarrow>
                   if due_datetime_pacific < now then None
                   else if due_datetime_pacific \<le> cutoff_datetime
                   then Some \<lparr>item = a, due_datetime_parsed = due_datetime_pacific,
                              due_date_parsed = date_of due_datetime_pacific\<rparr>
                   else None)"

fun filter_loop ::
  "tzinfo \<Rightarrow> datetime \<Rightarrow> datetime \<Rightarrow> assignment list \<Rightarrow> due_item list \<Rightarrow> due_item list" where
  "filter_loop tz now cutoff_datetime [] due_soon = due_soon"
| "filter_loop tz now cutoff_datetime (a # rest) due_soon =
     (case due_soon_entry tz now cutoff_datetime a of
        None \<Rightarrow> filter_loop tz now cutoff_datetime rest due_soon
      | Some e \<Rightarrow> filter_loop tz now cutoff_datetime rest (due_soon @ [e]))"

text \<open>\<^verbatim>\<open>list.sort(key=...)\<close> is stable, as \<open>sort_key\<close> is.\<close>

definition filter_due_next_3_days :: "tzinfo \<Rightarrow> datetime \<Rightarrow> assignment list \<Rightarrow> due_item list" where
  "filter_due_next_3_days tz now assignments =
     (let cutoff_datetime = now + timedelta 3 12
      in sort_key due_datetime_parsed (filter_loop tz now cutoff_datetime assignments []))"

text \<open>
  \<^verbatim>\<open>main\<close>, line 449: \<^verbatim>\<open>major_tests = [a for a in due_soon if is_major_test(a)]\<close>. The
  statement is in no \<^verbatim>\<open>try\<close> block: an exception of \<^verbatim>\<open>is_major_test\<close> ends the run.
\<close>

fun major_tests :: "due_item list \<Rightarrow> py_error + due_item list" where
  "major_tests [] = Inr []"
| "major_tests (a # rest) =
     (case is_major_test (item a) of
        Inl e \<Rightarrow> Inl e
      | Inr major \<Rightarrow>
          (case major_tests rest of
             Inl e \<Rightarrow> Inl e
           | Inr found \<Rightarrow> Inr (if major then a # found else found)))"

subsection \<open>Replies of the Canvas API\<close>

text \<open>
  What \<^verbatim>\<open>requests.get\<close> gives for one request: it raises, or it returns a response with
  a status code and a body, the body already decoded by \<^verbatim>\<open>.json()\<close>. A body that cannot be
  decoded makes \<^verbatim>\<open>.json()\<close> raise and is \<open>Raised\<close> as well.
\<close>

datatype 'a response = Raised | Response int 'a

text \<open>\<^verbatim>\<open>d.get(key, default)\<close> for a key that may be missing.\<close>

definition get_default :: "'a option \<Rightarrow> 'a \<Rightarrow> 'a" where
  "get_default v d = (case v of None \<Rightarrow> d | Some x \<Rightarrow> x)"

text \<open>
  A key whose value may also be \<^verbatim>\<open>null\<close>: \<^verbatim>\<open>d.get(key, default)\<close> gives the default only when
  the key is missing, and \<^verbatim>\<open>None\<close> for \<^verbatim>\<open>null\<close>.
\<close>

datatype 'a field = Missing | Null | Val 'a

definition get_or :: "'a field \<Rightarrow> 'a \<Rightarrow> 'a option" where
  "get_or f d = (case f of Missing \<Rightarrow> Some d | Null \<Rightarrow> None | Val v \<Rightarrow> Some v)"

subsection \<open>\<^verbatim>\<open>get_canvas_all_items\<close> and the collection loop of \<^verbatim>\<open>main\<close>\<close>

text \<open>
  The bodies of the three kinds of request the collector sends: planner items, courses,
  and the assignments of one course. \<open>None\<close> in a field with a default is a missing key;
  \<^verbatim>\<open>points_possible\<close> and \<^verbatim>\<open>description\<close> are fields that may also hold \<^verbatim>\<open>null\<close>.
  \<^verbatim>\<open>plannable_date\<close> and \<^verbatim>\<open>due_at\<close> are read with \<^verbatim>\<open>.get\<close> and no default, so \<open>None\<close> is
  a missing key or \<^verbatim>\<open>null\<close>. A \<open>canvas_instance\<close> holds the replies of one configured
  instance; the reply to the assignments request depends on the course id.
\<close>

record plannable =
  pl_title :: "string option"
  pl_points_possible :: "rat field"
  pl_html_url :: "string option"
  pl_description :: "string field"

record planner_item =
  pi_plannable :: "plannable option"
  plannable_date :: "string option"
  context_name :: "string option"

record course_assignment =
  ca_name :: "string option"
  ca_due_at :: "string option"
  ca_points_possible :: "rat field"
  ca_html_url :: "string option"
  ca_description :: "string field"

record course =
  course_id :: "int option"
  workflow_state :: "string option"
  course_title :: "string option"

record canvas_instance =
  planner_response :: "planner_item list response"
  courses_response :: "course list response"
  assignments_response :: "int \<Rightarrow> course_assignment list response"

text \<open>The dictionaries built at lines 109-116 and 154-161.\<close>

definition planner_assignment :: "planner_item \<Rightarrow> assignment" where
  "planner_assignment pitem =
     (let plannable = get_default (pi_plannable pitem)
            \<lparr>pl_title = None, pl_points_possible = Missing, pl_html_url = None,
             pl_description = Missing\<rparr>
      in \<lparr>name = get_default (pl_title plannable) ''Unnamed'',
          due_at = plannable_date pitem,
          points_possible = get_or (pl_points_possible plannable) 0,
          course_name = get_default (context_name pitem) ''Unknown'',
          html_url = get_default (pl_html_url plannable) ''#'',
          description = get_or (pl_description plannable) ''''\<rparr>)"

definition course_assignment_record :: "course \<Rightarrow> course_assignment \<Rightarrow> assignment" where
  "course_assignment_record c a =
     \<lparr>name = get_default (ca_name a) ''Unnamed'',
      due_at = ca_due_at a,
      points_possible = get_or (ca_points_possible a) 0,
      course_name = get_default (course_title c) ''Unknown'',
      html_url = get_default (ca_html_url a) ''#'',
      description = get_or (ca_description a) ''''\<rparr>"

text \<open>
  The two variables of the collector, \<^verbatim>\<open>all_items\<close> and \<^verbatim>\<open>seen_items\<close>, and the step
  \<^verbatim>\<open>if item_key not in seen_items: seen_items.add(item_key); all_items.append(assignment)\<close>
  with \<^verbatim>\<open>item_key = f"{assignment['name']}_{assignment['due_at']}"\<close>.
\<close>

record collector =
  all_items :: "assignment list"
  seen_items :: "string set"

definition item_key :: "assignment \<Rightarrow> string" where
  "item_key a = name a @ ''_'' @ py_str (due_at a)"

definition track :: "assignment \<Rightarrow> collector \<Rightarrow> collector" where
  "track a st =
     (if item_key a \<notin> seen_items st
      then \<lparr>all_items = all_items st @ [a], seen_items = insert (item_key a) (seen_items st)\<rparr>
      else st)"

fun planner_loop :: "planner_item list \<Rightarrow> collector \<Rightarrow> collector" where
  "planner_loop [] st = st"
| "planner_loop (pitem # rest) st = planner_loop rest (track (planner_assignment pitem) st)"

fun assignments_loop :: "course \<Rightarrow> course_assignment list \<Rightarrow> collector \<Rightarrow> collector" where
  "assignments_loop c [] st = st"
| "assignments_loop c (a # rest) st =
     (if \<not> truthy (ca_due_at a) then assignments_loop c rest st
      else assignments_loop c rest (track (course_assignment_record c a) st))"

text \<open>
  The loop over the courses. A raised request leaves the \<^verbatim>\<open>try\<close> block: the result is
  \<open>None\<close>, and \<^verbatim>\<open>get_canvas_all_items\<close> returns the empty list for it.
\<close>

fun courses_loop ::
  "(int \<Rightarrow> course_assignment list response) \<Rightarrow> course list \<Rightarrow> collector \<Rightarrow> collector option" where
  "courses_loop reply [] st = Some st"
| "courses_loop reply (c # rest) st =
     (case course_id c of
        None \<Rightarrow> courses_loop reply rest st
      | Some cid \<Rightarrow>
          if get_default (workflow_state c) '''' \<in> set [''completed'', ''deleted'']
          then courses_loop reply rest st
          else case reply cid of
                 Raised \<Rightarrow> None
               | Response status_code course_assignments \<Rightarrow>
                   if status_code = 200
                   then courses_loop reply rest (assignments_loop c course_assignments st)
                   else courses_loop reply rest st)"

definition get_canvas_all_items_try :: "canvas_instance \<Rightarrow> assignment list option" where
  "get_canvas_all_items_try inst =
     (case planner_response inst of
        Raised \<Rightarrow> None
      | Response planner_status planner_items \<Rightarrow>
          let st = (if planner_status = 200
                    then planner_loop planner_items \<lparr>all_items = [], seen_items = {}\<rparr>
                    else \<lparr>all_items = [], seen_items = {}\<rparr>)
          in case courses_response inst of
               Raised \<Rightarrow> None
             | Response courses_status courses \<Rightarrow>
                 if courses_status = 200
                 then map_option all_items (courses_loop (assignments_response inst) courses st)
                 else Some (all_items st))"

definition get_canvas_all_items :: "canvas_instance \<Rightarrow> assignment list" where
  "get_canvas_all_items inst =
     (case get_canvas_all_items_try inst of None \<Rightarrow> [] | Some items \<Rightarrow> items)"

text \<open>
  \<^verbatim>\<open>main\<close>: \<^verbatim>\<open>for instance in CANVAS_INSTANCES: all_assignments.extend(get_canvas_all_items(...))\<close>
\<close>

fun instances_loop :: "canvas_instance list \<Rightarrow> assignment list \<Rightarrow> assignment list" where
  "instances_loop [] all_assignments = all_assignments"
| "instances_loop (inst # rest) all_assignments =
     instances_loop rest (all_assignments @ get_canvas_all_items inst)"

definition collect_all_assignments :: "canvas_instance list \<Rightarrow> assignment list" where
  "collect_all_assignments instances = instances_loop instances []"

subsection \<open>Specification view of the collector\<close>

text \<open>
  The following definitions are not code of the repository; the theorems compare the
  collector with them. \<open>identity_key\<close> is the identity key of the specification, the pair
  of name and deadline. \<open>first_seen key xs\<close> keeps, from left to right, the elements whose
  key has not occurred before. \<open>candidates\<close> is the sequence of dictionaries the collector
  builds in one run, in the order it builds them, or \<open>None\<close> when a request raises.
  \<open>due_plain\<close> holds of a deadline that is absent, or a string without an underscore
  other than the text \<^verbatim>\<open>None\<close>. \<open>source_deadline\<close> holds of a deadline as the data model
  has it: absent, or a timestamp in the format of the source.
  \<open>tracks\<close> is the collector step run over a list.
\<close>

definition identity_key :: "assignment \<Rightarrow> string \<times> string option" where
  "identity_key a = (name a, due_at a)"

fun first_seen :: "('a \<Rightarrow> 'k) \<Rightarrow> 'a list \<Rightarrow> 'a list" where
  "first_seen key [] = []"
| "first_seen key (x # xs) = x # first_seen key (filter (\<lambda>y. key y \<noteq> key x) xs)"

definition course_candidates ::
  "(int \<Rightarrow> course_assignment list response) \<Rightarrow> course \<Rightarrow> assignment list option" where
  "course_candidates reply c =
     (case course_id c of
        None \<Rightarrow> Some []
      | Some cid \<Rightarrow>
          if get_default (workflow_state c) '''' \<in> set [''completed'', ''deleted''] then Some []
          else case reply cid of
                 Raised \<Rightarrow> None
               | Response status_code course_assignments \<Rightarrow>
                   if status_code = 200
                   then Some (map (course_assignment_record c)
                                (filter (\<lambda>a. truthy (ca_due_at a)) course_assignments))
                   else Some [])"

fun courses_candidates ::
  "(int \<Rightarrow> course_assignment list response) \<Rightarrow> course list \<Rightarrow> assignment list option" where
  "courses_candidates reply [] = Some []"
| "courses_candidates reply (c # rest) =
     (case course_candidates reply c of
        None \<Rightarrow> None
      | Some xs \<Rightarrow> map_option ((@) xs) (courses_candidates reply rest))"

definition candidates :: "canvas_instance \<Rightarrow> assignment list option" where
  "candidates inst =
     (case planner_response inst of
        Raised \<Rightarrow> None
      | Response planner_status planner_items \<Rightarrow>
          (case courses_response inst of
             Raised \<Rightarrow> None
           | Response courses_status courses \<Rightarrow>
               map_option
                 ((@) (if planner_status = 200 then map planner_assignment planner_items else []))
                 (if courses_status = 200 then courses_candidates (assignments_response inst) courses
                  else Some [])))"

definition due_plain :: "string option \<Rightarrow> bool" where
  "due_plain d = (case d of None \<Rightarrow> True | Some s \<Rightarrow> CHR ''_'' \<notin> set s \<and> s \<noteq> ''None'')"

definition source_deadline :: "string option \<Rightarrow> bool" where
  "source_deadline d = (case d of None \<Rightarrow> True | Some s \<Rightarrow> strptime s \<noteq> None)"

definition tracks :: "assignment list \<Rightarrow> collector \<Rightarrow> collector" where
  "tracks xs st = foldl (\<lambda>s a. track a s) st xs"

subsection \<open>\<^verbatim>\<open>get_modules_before_exam\<close>\<close>

record module_item =
  item_type :: "string option"
  item_title :: "string option"
  item_url :: "string option"
  item_html_url :: "string option"
  item_page_url :: "string option"
  content_id :: "int option"

record module =
  mod_name :: "string option"
  unlock_at :: "string option"
  mod_items :: "module_item list"

definition exclude_keywords :: "string list" where
  "exclude_keywords =
     [''course essentials'', ''microsoft teams'', ''library research'', ''library guide'',
      ''instruction guide'', ''getting started'', ''syllabus'', ''resources'', ''how to'',
      ''orientation'']"

definition module_indicators :: "string list" where
  "module_indicators = [''week'', ''chapter'', ''ch '', ''module'']"

text \<open>
  The body of the loop: whether the module is appended to \<^verbatim>\<open>modules_before_exam\<close>.
  \<open>exam_date\<close> is the \<^verbatim>\<open>due_datetime_parsed\<close> of the exam, a datetime of the same zone. An
  exception while parsing or converting \<^verbatim>\<open>unlock_at\<close> is caught by the bare \<^verbatim>\<open>except\<close>, whose
  body is \<^verbatim>\<open>pass\<close>.
\<close>

definition module_kept :: "tzinfo \<Rightarrow> datetime \<Rightarrow> module \<Rightarrow> bool" where
  "module_kept tz exam_date m =
     (let module_name = lower (get_default (mod_name m) '''')
      in if list_ex (\<lambda>keyword. py_in keyword module_name) exclude_keywords then False
         else if truthy (unlock_at m)
         then (case unlock_at m \<bind> due_local tz of
                 None \<Rightarrow> False
               | Some unlock_date_pacific \<Rightarrow> unlock_date_pacific < exam_date)
         else list_ex (\<lambda>indicator. py_in indicator module_name) module_indicators)"

fun modules_loop :: "tzinfo \<Rightarrow> datetime \<Rightarrow> module list \<Rightarrow> module list \<Rightarrow> module list" where
  "modules_loop tz exam_date [] modules_before_exam = modules_before_exam"
| "modules_loop tz exam_date (m # rest) modules_before_exam =
     (if module_kept tz exam_date m
      then modules_loop tz exam_date rest (modules_before_exam @ [m])
      else modules_loop tz exam_date rest modules_before_exam)"

text \<open>A raised request and a status other than 200 both end in \<^verbatim>\<open>return []\<close>.\<close>

definition get_modules_before_exam ::
  "module list response \<Rightarrow> tzinfo \<Rightarrow> datetime \<Rightarrow> module list" where
  "get_modules_before_exam response tz exam_date =
     (case response of
        Raised \<Rightarrow> []
      | Response status_code all_modules \<Rightarrow>
          if status_code = 200 then modules_loop tz exam_date all_modules [] else [])"

subsection \<open>\<^verbatim>\<open>clean_html\<close>\<close>

text \<open>
  \<^verbatim>\<open>re.sub('<[^<]+?>', '', text)\<close>: a tag is \<^verbatim>\<open><\<close>, one character other than \<^verbatim>\<open><\<close>, and
  then the shortest run of characters other than \<^verbatim>\<open><\<close> that ends in \<^verbatim>\<open>>\<close>. \<open>tag_end s\<close>
  is what follows the tag when \<open>s\<close> follows its \<^verbatim>\<open><\<close>. Then \<^verbatim>\<open>re.sub(r'\s+', ' ', clean)\<close> and
  \<^verbatim>\<open>strip()\<close>, with the white space of Python among the characters below 256.
\<close>

definition is_space :: "char \<Rightarrow> bool" where
  "is_space c = (c \<in> set [CHR 0x09, CHR 0x0A, CHR 0x0B, CHR 0x0C, CHR 0x0D, CHR 0x1C, CHR 0x1D,
                           CHR 0x1E, CHR 0x1F, CHR 0x20, CHR 0x85, CHR 0xA0])"

fun scan_gt :: "string \<Rightarrow> string option" where
  "scan_gt [] = None"
| "scan_gt (c # s) =
     (if c = CHR ''>'' then Some s else if c = CHR ''<'' then None else scan_gt s)"

definition tag_end :: "string \<Rightarrow> string option" where
  "tag_end s = (case s of [] \<Rightarrow> None | d # r \<Rightarrow> if d = CHR ''<'' then None else scan_gt r)"

function strip_tags :: "string \<Rightarrow> string" where
  "strip_tags [] = []"
| "strip_tags (c # s) =
     (if c = CHR ''<''
      then (case tag_end s of Some r \<Rightarrow> strip_tags r | None \<Rightarrow> c # strip_tags s)
      else c # strip_tags s)"
  by pat_completeness auto
termination
proof (relation "measure length")
  show "wf (measure length)" by simp
next
  fix c :: char and s r :: string
  assume "tag_end s = Some r"
  have scan: "scan_gt t = Some u \<Longrightarrow> length u < length t" for t u
    by (induction t) (auto split: if_splits)
  from \<open>tag_end s = Some r\<close> have "length r < length s"
    by (cases s) (auto simp: tag_end_def split: if_splits dest: scan)
  then show "(r, c # s) \<in> measure length" by simp
next
  fix c :: char and s :: string
  show "(s, c # s) \<in> measure length" by simp
next
  fix c :: char and s :: string
  show "(s, c # s) \<in> measure length" by simp
qed

function collapse_ws :: "string \<Rightarrow> string" where
  "collapse_ws [] = []"
| "collapse_ws (c # s) =
     (if is_space c then CHR '' '' # collapse_ws (dropWhile is_space s) else c # collapse_ws s)"
  by pat_completeness auto
termination
  by (relation "measure length") (auto simp: less_Suc_eq_le length_dropWhile_le)

definition strip :: "string \<Rightarrow> string" where
  "strip s = rev (dropWhile is_space (rev (dropWhile is_space s)))"

definition clean_html :: "string option \<Rightarrow> string" where
  "clean_html text = (if \<not> truthy text then [] else strip (collapse_ws (strip_tags (py_str text))))"

subsection \<open>\<^verbatim>\<open>get_page_content\<close> and \<^verbatim>\<open>get_all_content_before_exam\<close>\<close>

text \<open>
  The bodies of a page, an assignment and a discussion topic, and the replies of one
  course to the three requests: a page by its slug, the other two by the \<^verbatim>\<open>content_id\<close> of
  the module item. Every exception of a fetch is caught where it is raised and the item
  is skipped.
\<close>

record page_data =
  page_title :: "string option"
  page_body :: "string option"

record assignment_data =
  asg_name :: "string option"
  asg_description :: "string option"

record discussion_data =
  disc_title :: "string option"
  disc_message :: "string option"

record course_content =
  page_reply :: "string \<Rightarrow> page_data response"
  assignment_reply :: "int option \<Rightarrow> assignment_data response"
  discussion_reply :: "int option \<Rightarrow> discussion_data response"

record page_content =
  pc_title :: string
  pc_content :: string

record content_item =
  content_type :: string
  content_module :: string
  content_title :: string
  content_text :: string

text \<open>\<^verbatim>\<open>page_url.split('/')[-1]\<close>\<close>

definition last_segment :: "string \<Rightarrow> string" where
  "last_segment s = rev (takeWhile (\<lambda>c. c \<noteq> CHR ''/'') (rev s))"

definition get_page_content :: "course_content \<Rightarrow> string \<Rightarrow> page_content option" where
  "get_page_content w page_url =
     (case page_reply w (last_segment page_url) of
        Raised \<Rightarrow> None
      | Response status_code pd \<Rightarrow>
          if status_code = 200
          then Some \<lparr>pc_title = get_default (page_title pd) ''Untitled'',
                     pc_content = clean_html (page_body pd)\<rparr>
          else None)"

text \<open>
  The body of the loop over the items of a module: what one item adds to
  \<^verbatim>\<open>all_content\<close>. Nothing in it reads \<^verbatim>\<open>all_content\<close>.
\<close>

definition item_content :: "course_content \<Rightarrow> string \<Rightarrow> module_item \<Rightarrow> content_item option" where
  "item_content w module_name i =
     (let title = get_default (item_title i) ''Item''
      in if item_type i = Some ''Page''
         then (let page_url = (if truthy (item_url i) then item_url i else item_html_url i)
               in if truthy page_url
                  then (case get_page_content w (py_str page_url) of
                          None \<Rightarrow> None
                        | Some pc \<Rightarrow>
                            if pc_content pc \<noteq> []
                            then Some \<lparr>content_type = ''Page'', content_module = module_name,
                                       content_title = pc_title pc, content_text = pc_content pc\<rparr>
                            else None)
                  else None)
         else if item_type i = Some ''Assignment''
         then (if truthy (item_page_url i)
               then (case assignment_reply w (content_id i) of
                       Raised \<Rightarrow> None
                     | Response status_code ad \<Rightarrow>
                         if status_code = 200 \<and> clean_html (asg_description ad) \<noteq> []
                         then Some \<lparr>content_type = ''Assignment'', content_module = module_name,
                                    content_title = get_default (asg_name ad) title,
                                    content_text = clean_html (asg_description ad)\<rparr>
                         else None)
               else None)
         else if item_type i = Some ''Discussion''
         then (case discussion_reply w (content_id i) of
                 Raised \<Rightarrow> None
               | Response status_code dd \<Rightarrow>
                   if status_code = 200 \<and> clean_html (disc_message dd) \<noteq> []
                   then Some \<lparr>content_type = ''Discussion'', content_module = module_name,
                              content_title = get_default (disc_title dd) title,
                              content_text = clean_html (disc_message dd)\<rparr>
                   else None)
         else None)"

fun items_loop ::
  "course_content \<Rightarrow> string \<Rightarrow> module_item list \<Rightarrow> content_item list \<Rightarrow> content_item list" where
  "items_loop w module_name [] all_content = all_content"
| "items_loop w module_name (i # rest) all_content =
     (case item_content w module_name i of
        None \<Rightarrow> items_loop w module_name rest all_content
      | Some c \<Rightarrow> items_loop w module_name rest (all_content @ [c]))"

fun content_modules_loop ::
  "course_content \<Rightarrow> module list \<Rightarrow> content_item list \<Rightarrow> content_item list" where
  "content_modules_loop w [] all_content = all_content"
| "content_modules_loop w (m # rest) all_content =
     content_modules_loop w rest
       (items_loop w (get_default (mod_name m) ''Module'') (mod_items m) all_content)"

definition get_all_content_before_exam ::
  "course_content \<Rightarrow> module list response \<Rightarrow> tzinfo \<Rightarrow> datetime \<Rightarrow> content_item list" where
  "get_all_content_before_exam w modules_response tz exam_date =
     content_modules_loop w (get_modules_before_exam modules_response tz exam_date) []"

subsection \<open>\<^verbatim>\<open>get_quiz_questions\<close>\<close>

text \<open>
  The function is defined in the study-guide script and called nowhere:
  \<^verbatim>\<open>get_all_content_before_exam\<close> sets \<^verbatim>\<open>quiz_questions = []\<close>. The submissions reply is a
  JSON object with the key \<^verbatim>\<open>quiz_submissions\<close> or a JSON array. An exception raised while
  the attempts of one quiz are read is caught for that quiz, and the questions appended so
  far stay.
\<close>

record quiz =
  quiz_due_at :: "string option"
  quiz_lock_at :: "string option"
  quiz_title :: "string option"
  quiz_id :: "int option"

record quiz_submission =
  submission_id :: "int option"
  submission_attempt :: "int option"

record answer =
  answer_text :: "string option"

record question =
  question_text :: "string option"
  question_type :: "string option"
  question_answers :: "answer list"

datatype submissions_data =
  SubmissionsObject "quiz_submission list option" | SubmissionsArray "quiz_submission list"

record questions_data =
  quiz_submission_questions :: "question list option"

record quiz_replies =
  quizzes_reply :: "quiz list response"
  submissions_reply :: "int option \<Rightarrow> submissions_data response"
  questions_reply :: "int \<Rightarrow> questions_data response"

record quiz_question =
  qq_quiz :: string
  qq_question :: string
  qq_type :: string
  qq_attempt :: int

fun join :: "string \<Rightarrow> string list \<Rightarrow> string" where
  "join sep [] = []"
| "join sep [x] = x"
| "join sep (x # y # rest) = x @ sep @ join sep (y # rest)"

definition answers_info :: "question \<Rightarrow> string" where
  "answers_info q =
     (if question_answers q \<noteq> []
         \<and> get_default (question_type q) '''' \<in> set [''multiple_choice_question'', ''true_false_question'']
      then (let answer_texts = map (\<lambda>a. clean_html (answer_text a))
                                 (filter (\<lambda>a. truthy (answer_text a)) (question_answers q))
            in if answer_texts \<noteq> []
               then [CHR 0x0A] @ ''   Options: '' @ join '' | '' (take 5 answer_texts)
               else [])
      else [])"

text \<open>
  Lines 208-217: the entry stores the cleaned text followed by the answer options, and
  the duplicate test compares the first 100 characters of the stored entries with the
  first 100 characters of the new cleaned text.
\<close>

definition question_entry :: "string \<Rightarrow> int \<Rightarrow> question \<Rightarrow> quiz_question" where
  "question_entry title attempt_num q =
     \<lparr>qq_quiz = title, qq_question = clean_html (question_text q) @ answers_info q,
      qq_type = get_default (question_type q) '''', qq_attempt = attempt_num\<rparr>"

definition add_question :: "string \<Rightarrow> int \<Rightarrow> question \<Rightarrow> quiz_question list \<Rightarrow> quiz_question list" where
  "add_question title attempt_num q all_quiz_questions =
     (let text = clean_html (question_text q);
          question_key = take 100 text
      in if text \<noteq> []
            \<and> \<not> list_ex (\<lambda>e. take 100 (qq_question e) = question_key) all_quiz_questions
         then all_quiz_questions @ [question_entry title attempt_num q]
         else all_quiz_questions)"

fun questions_loop ::
  "string \<Rightarrow> int \<Rightarrow> question list \<Rightarrow> quiz_question list \<Rightarrow> quiz_question list" where
  "questions_loop title attempt_num [] all_quiz_questions = all_quiz_questions"
| "questions_loop title attempt_num (q # rest) all_quiz_questions =
     questions_loop title attempt_num rest (add_question title attempt_num q all_quiz_questions)"

fun submissions_loop ::
  "quiz_replies \<Rightarrow> string \<Rightarrow> quiz_submission list \<Rightarrow> quiz_question list \<Rightarrow> quiz_question list" where
  "submissions_loop w title [] all_quiz_questions = all_quiz_questions"
| "submissions_loop w title (submission # rest) all_quiz_questions =
     (case submission_id submission of
        None \<Rightarrow> submissions_loop w title rest all_quiz_questions
      | Some quiz_sub_id \<Rightarrow>
          if quiz_sub_id = 0 then submissions_loop w title rest all_quiz_questions
          else case questions_reply w quiz_sub_id of
                 Raised \<Rightarrow> all_quiz_questions
               | Response status_code questions \<Rightarrow>
                   if status_code = 200
                   then (let questions_list = get_default (quiz_submission_questions questions) [];
                             collected = questions_loop title
                                           (get_default (submission_attempt submission) 1)
                                           questions_list all_quiz_questions
                         in if questions_list \<noteq> [] then collected
                            else submissions_loop w title rest collected)
                   else submissions_loop w title rest all_quiz_questions)"

definition quiz_attempts :: "quiz_replies \<Rightarrow> quiz \<Rightarrow> quiz_question list \<Rightarrow> quiz_question list" where
  "quiz_attempts w qz all_quiz_questions =
     (case submissions_reply w (quiz_id qz) of
        Raised \<Rightarrow> all_quiz_questions
      | Response status_code submissions \<Rightarrow>
          if status_code = 200
          then submissions_loop w (get_default (quiz_title qz) ''Quiz'')
                 (case submissions of
                    SubmissionsObject v \<Rightarrow> get_default v []
                  | SubmissionsArray l \<Rightarrow> l)
                 all_quiz_questions
          else all_quiz_questions)"

fun quizzes_loop ::
  "quiz_replies \<Rightarrow> tzinfo \<Rightarrow> datetime \<Rightarrow> quiz list \<Rightarrow> quiz_question list \<Rightarrow> quiz_question list" where
  "quizzes_loop w tz exam_date [] all_quiz_questions = all_quiz_questions"
| "quizzes_loop w tz exam_date (qz # rest) all_quiz_questions =
     (let due = (if truthy (quiz_due_at qz) then quiz_due_at qz else quiz_lock_at qz)
      in if truthy due
            \<and> (case due \<bind> due_local tz of
                  None \<Rightarrow> False
                | Some due_datetime_pacific \<Rightarrow> due_datetime_pacific \<ge> exam_date)
         then quizzes_loop w tz exam_date rest all_quiz_questions
         else quizzes_loop w tz exam_date rest (quiz_attempts w qz all_quiz_questions))"

definition get_quiz_questions :: "quiz_replies \<Rightarrow> tzinfo \<Rightarrow> datetime \<Rightarrow> quiz_question list" where
  "get_quiz_questions w tz exam_date =
     (case quizzes_reply w of
        Raised \<Rightarrow> []
      | Response status_code quizzes \<Rightarrow>
          if status_code = 200 then quizzes_loop w tz exam_date quizzes [] else [])"

text \<open>
  For the statement about quiz questions: \<open>first100\<close> is the first 100 characters of a
  stored entry; a question is plain when its stored entry and its cleaned text agree on
  their first 100 characters (no options are appended, or the text has 100 characters or
  more); \<open>plain_replies\<close> says that of every question of every questions reply.
\<close>

definition plain_question :: "question \<Rightarrow> bool" where
  "plain_question q =
     (take 100 (clean_html (question_text q) @ answers_info q)
        = take 100 (clean_html (question_text q)))"

definition plain_replies :: "quiz_replies \<Rightarrow> bool" where
  "plain_replies w =
     (\<forall>sid status_code questions qs q.
        questions_reply w sid = Response status_code questions
          \<and> quiz_submission_questions questions = Some qs \<and> q \<in> set qs
        \<longrightarrow> plain_question q)"

definition first100 :: "quiz_question \<Rightarrow> string" where
  "first100 e = take 100 (qq_question e)"

subsection \<open>Sample data\<close>

text \<open>A zone eight hours behind UTC all year, and an assignment with a name and a deadline.\<close>

definition pst :: tzinfo where
  "pst u = - 8 * 3600000000"

definition work :: "string \<Rightarrow> string option \<Rightarrow> assignment" where
  "work n d = \<lparr>name = n, due_at = d, points_possible = Some 10, course_name = ''BA 101'',
               html_url = ''#'', description = None\<rparr>"

definition container :: "string \<Rightarrow> string option \<Rightarrow> module" where
  "container n u = \<lparr>mod_name = Some n, unlock_at = u, mod_items = []\<rparr>"

text \<open>
  Replies for the collector: an essay listed by the planner and by its course, the same
  essay with its deadline written without leading zeros, a planner entry and a course
  assignment without a deadline, an exam without a points value, a course, an instance
  whose every course has the same assignments reply, and a planner entry with a title and
  a date.
\<close>

definition essay_planner :: planner_item where
  "essay_planner =
     \<lparr>pi_plannable = Some \<lparr>pl_title = Some ''Essay 1'', pl_points_possible = Val 100,
                            pl_html_url = Some ''https://canvas.example/essay-1'',
                            pl_description = Val ''From the planner''\<rparr>,
      plannable_date = Some ''2026-02-01T23:59:00Z'', context_name = Some ''WR 121''\<rparr>"

definition office_hours :: planner_item where
  "office_hours =
     \<lparr>pi_plannable = Some \<lparr>pl_title = Some ''Office hours'', pl_points_possible = Missing,
                            pl_html_url = None, pl_description = Null\<rparr>,
      plannable_date = None, context_name = Some ''WR 121''\<rparr>"

definition essay_listed :: course_assignment where
  "essay_listed =
     \<lparr>ca_name = Some ''Essay 1'', ca_due_at = Some ''2026-02-01T23:59:00Z'',
      ca_points_possible = Val 100, ca_html_url = None,
      ca_description = Val ''From the course list''\<rparr>"

definition essay_variant :: course_assignment where
  "essay_variant =
     \<lparr>ca_name = Some ''Essay 1'', ca_due_at = Some ''2026-2-1T23:59:00Z'',
      ca_points_possible = Val 100, ca_html_url = None,
      ca_description = Val ''From the course list''\<rparr>"

definition reading_log :: course_assignment where
  "reading_log =
     \<lparr>ca_name = Some ''Reading log'', ca_due_at = None, ca_points_possible = Val 5,
      ca_html_url = None, ca_description = Null\<rparr>"

definition ungraded_exam :: course_assignment where
  "ungraded_exam =
     \<lparr>ca_name = Some ''Exam 2'', ca_due_at = Some ''2026-01-02T10:00:00Z'',
      ca_points_possible = Null, ca_html_url = None, ca_description = Null\<rparr>"

definition writing :: course where
  "writing = \<lparr>course_id = Some 7, workflow_state = Some ''available'',
               course_title = Some ''WR 121''\<rparr>"

definition campus ::
  "planner_item list response \<Rightarrow> course list response \<Rightarrow> course_assignment list response
     \<Rightarrow> canvas_instance" where
  "campus p c a = \<lparr>planner_response = p, courses_response = c, assignments_response = (\<lambda>cid. a)\<rparr>"

definition titled :: "string \<Rightarrow> string option \<Rightarrow> planner_item" where
  "titled t d = \<lparr>pi_plannable = Some \<lparr>pl_title = Some t, pl_points_possible = Missing,
                    pl_html_url = None, pl_description = Missing\<rparr>,
                 plannable_date = d, context_name = None\<rparr>"

text \<open>
  Two module items that are pages, a course whose every page has the same body, three
  quiz questions without options and a quiz with one attempt.
\<close>

definition page_item :: "string \<Rightarrow> module_item" where
  "page_item url = \<lparr>item_type = Some ''Page'', item_title = Some ''Notes'', item_url = Some url,
                     item_html_url = None, item_page_url = None, content_id = None\<rparr>"

definition lecture_pages :: course_content where
  "lecture_pages =
     \<lparr>page_reply = (\<lambda>slug. Response 200 \<lparr>page_title = Some slug,
                                           page_body = Some ''<p>Supply  and <b>demand</b> </p>''\<rparr>),
      assignment_reply = (\<lambda>cid. Response 404 \<lparr>asg_name = None, asg_description = None\<rparr>),
      discussion_reply = (\<lambda>cid. Raised)\<rparr>"

definition plain_text_question :: "string \<Rightarrow> question" where
  "plain_text_question t = \<lparr>question_text = Some t, question_type = Some ''essay_question'',
                             question_answers = []\<rparr>"

definition econ_quiz :: quiz_replies where
  "econ_quiz =
     \<lparr>quizzes_reply = Response 200 [\<lparr>quiz_due_at = None, quiz_lock_at = None,
                                       quiz_title = Some ''Quiz 1'', quiz_id = Some 4\<rparr>],
      submissions_reply = (\<lambda>qid. Response 200 (SubmissionsObject
                             (Some [\<lparr>submission_id = Some 31, submission_attempt = Some 2\<rparr>]))),
      questions_reply = (\<lambda>sid. Response 200 \<lparr>quiz_submission_questions =
                             Some [plain_text_question ''What is <b>GDP</b>?'',
                                   plain_text_question ''What is GDP?'',
                                   plain_text_question ''Define  inflation'']\<rparr>)\<rparr>"

section \<open>Properties\<close>

subsection \<open>Strings\<close>

lemma py_in_iff: "py_in k s \<longleftrightarrow> (\<exists>p q. s = p @ k @ q)"
proof (induction s)
  case Nil
  then show ?case by auto
next
  case (Cons c s)
  show ?case
  proof
    assume "py_in k (c # s)"
    then consider "prefix k (c # s)" | "py_in k s" by auto
    then show "\<exists>p q. c # s = p @ k @ q"
    proof cases
      case 1
      then obtain q where "c # s = k @ q" by (auto simp: prefix_def)
      then have "c # s = [] @ k @ q" by simp
      then show ?thesis by blast
    next
      case 2
      with Cons.IH obtain p q where "s = p @ k @ q" by blast
      then have "c # s = (c # p) @ k @ q" by simp
      then show ?thesis by blast
    qed
  next
    assume "\<exists>p q. c # s = p @ k @ q"
    then obtain p q where pq: "c # s = p @ k @ q" by blast
    show "py_in k (c # s)"
    proof (cases p)
      case Nil
      with pq have "prefix k (c # s)" by (simp add: prefix_def)
      then show ?thesis by simp
    next
      case (Cons d p')
      with pq have "s = p' @ k @ q" by simp
      with Cons.IH have "py_in k s" by blast
      then show ?thesis by simp
    qed
  qed
qed

lemma keyword_loop_iff: "keyword_loop ks nm \<longleftrightarrow> (\<exists>k \<in> set ks. py_in k nm)"
  by (induction ks) auto

subsection \<open>The importance classifier\<close>

text \<open>
  The rule of the classifier, on the lower-cased name and description. A name with one of
  the phrases "midterm", "final exam", "final test", "midterm exam" is major, whatever the
  points, also without a points value. Otherwise a name without "exam" is major exactly
  when the description contains "respondus" or "lockdown browser"; a name with "exam" and
  a number of points is major exactly when the points are at least 50 or the description
  contains one of the two phrases; a name with "exam" and no points value raises.
\<close>

lemma is_major_test_cases:
  "(keyword_loop major_keywords (lower (name a)) \<longrightarrow> is_major_test a = Inr True)
   \<and> (\<not> keyword_loop major_keywords (lower (name a)) \<and> \<not> py_in ''exam'' (lower (name a))
        \<longrightarrow> is_major_test a =
              Inr (py_in ''respondus'' (lower (py_str (description a)))
                   \<or> py_in ''lockdown browser'' (lower (py_str (description a)))))
   \<and> (\<not> keyword_loop major_keywords (lower (name a)) \<and> py_in ''exam'' (lower (name a))
        \<and> points_possible a = Some p
        \<longrightarrow> is_major_test a =
              Inr (50 \<le> p \<or> py_in ''respondus'' (lower (py_str (description a)))
                   \<or> py_in ''lockdown browser'' (lower (py_str (description a)))))
   \<and> (\<not> keyword_loop major_keywords (lower (name a)) \<and> py_in ''exam'' (lower (name a))
        \<and> points_possible a = None
        \<longrightarrow> is_major_test a = Inl TypeError)"
  by (simp add: is_major_test_def exam_with_points_def Let_def)

text \<open>The examples of the specification.\<close>

lemma is_major_test_examples:
  "is_major_test \<lparr>name = ''Midterm Exam 1'', due_at = None, points_possible = None,
       course_name = ''BA 101'', html_url = ''#'', description = None\<rparr> = Inr True
   \<and> is_major_test \<lparr>name = ''Exam 3'', due_at = None, points_possible = Some 40,
       course_name = ''BA 101'', html_url = ''#'', description = Some ''Chapters 1-3''\<rparr> = Inr False
   \<and> is_major_test \<lparr>name = ''Exam 3'', due_at = None, points_possible = Some 50,
       course_name = ''BA 101'', html_url = ''#'', description = Some ''Chapters 1-3''\<rparr> = Inr True
   \<and> is_major_test \<lparr>name = ''Quiz 2'', due_at = None, points_possible = Some 10,
       course_name = ''BA 101'', html_url = ''#'',
       description = Some ''Requires Respondus LockDown Browser''\<rparr> = Inr True"
  by (simp add: is_major_test_def exam_with_points_def major_keywords_def lower_def
      lower_char_def py_str_def)

subsection \<open>The temporal classifier\<close>

lemma filter_loop_eq:
  "filter_loop tz now c xs acc = acc @ List.map_filter (due_soon_entry tz now c) xs"
  by (induction xs arbitrary: acc) (auto simp: List.map_filter_simps split: option.splits)

lemma due_soon_entry_item: "due_soon_entry tz now c a = Some e \<Longrightarrow> item e = a"
  by (auto simp: due_soon_entry_def split: if_splits option.splits)

lemma set_map_filter_eq: "set (List.map_filter f xs) = {y. \<exists>x \<in> set xs. f x = Some y}"
  by (induction xs) (auto simp: List.map_filter_simps split: option.splits)

lemma set_filter_due:
  "set (filter_due_next_3_days tz now xs) =
     {e. \<exists>a \<in> set xs. due_soon_entry tz now (now + timedelta 3 12) a = Some e}"
  by (simp add: filter_due_next_3_days_def filter_loop_eq set_map_filter_eq)

lemma strptime_Nil: "strptime [] = None"
  by (simp add: strptime_def split_at_def)

text \<open>
  Claim C2. An item of the input whose \<^verbatim>\<open>due_at\<close> is present and parses, with local reading
  \<open>l\<close>, is kept exactly when \<open>now \<le> l \<le> now + window\<close>, and is then kept with \<open>l\<close> as its
  parsed deadline. The cutoff is the one instant \<open>now + 3 days + 12 hours\<close>: equality with
  \<open>now\<close> and with the cutoff both keep the item, a deadline before \<open>now\<close> drops it.
\<close>

theorem filter_due_window:
  assumes "a \<in> set xs" and "due_at a = Some s" and "strptime s = Some u"
    and "astimezone tz u = Some l"
  shows "(\<lparr>item = a, due_datetime_parsed = l, due_date_parsed = date_of l\<rparr>
            \<in> set (filter_due_next_3_days tz now xs) \<longleftrightarrow> now \<le> l \<and> l \<le> now + timedelta 3 12)
       \<and> (a \<in> item ` set (filter_due_next_3_days tz now xs) \<longleftrightarrow> now \<le> l \<and> l \<le> now + timedelta 3 12)
       \<and> timedelta 3 12 = (3 * 86400 + 12 * 3600) * 1000000"
proof -
  from assms(3) have "s \<noteq> []" using strptime_Nil by auto
  with assms have E: "due_soon_entry tz now (now + timedelta 3 12) a =
     (if now \<le> l \<and> l \<le> now + timedelta 3 12
      then Some \<lparr>item = a, due_datetime_parsed = l, due_date_parsed = date_of l\<rparr> else None)"
    by (auto simp: due_soon_entry_def due_local_def)
  have 1: "\<lparr>item = a, due_datetime_parsed = l, due_date_parsed = date_of l\<rparr>
            \<in> set (filter_due_next_3_days tz now xs) \<longleftrightarrow> now \<le> l \<and> l \<le> now + timedelta 3 12"
  proof
    assume "\<lparr>item = a, due_datetime_parsed = l, due_date_parsed = date_of l\<rparr>
            \<in> set (filter_due_next_3_days tz now xs)"
    then obtain b where "b \<in> set xs" and b: "due_soon_entry tz now (now + timedelta 3 12) b =
        Some \<lparr>item = a, due_datetime_parsed = l, due_date_parsed = date_of l\<rparr>"
      by (auto simp: set_filter_due)
    from due_soon_entry_item [OF b] have "b = a" by simp
    with b E show "now \<le> l \<and> l \<le> now + timedelta 3 12" by (auto split: if_splits)
  next
    assume "now \<le> l \<and> l \<le> now + timedelta 3 12"
    with E assms(1) show "\<lparr>item = a, due_datetime_parsed = l, due_date_parsed = date_of l\<rparr>
            \<in> set (filter_due_next_3_days tz now xs)"
      by (auto simp: set_filter_due)
  qed
  have 2: "a \<in> item ` set (filter_due_next_3_days tz now xs) \<longleftrightarrow> now \<le> l \<and> l \<le> now + timedelta 3 12"
  proof
    assume "a \<in> item ` set (filter_due_next_3_days tz now xs)"
    then obtain e b where "b \<in> set xs" "due_soon_entry tz now (now + timedelta 3 12) b = Some e" "item e = a"
      by (auto simp: set_filter_due)
    then have "due_soon_entry tz now (now + timedelta 3 12) a = Some e"
      using due_soon_entry_item by blast
    with E show "now \<le> l \<and> l \<le> now + timedelta 3 12" by (auto split: if_splits)
  next
    assume "now \<le> l \<and> l \<le> now + timedelta 3 12"
    with 1 have "\<lparr>item = a, due_datetime_parsed = l, due_date_parsed = date_of l\<rparr>
            \<in> set (filter_due_next_3_days tz now xs)" by simp
    then show "a \<in> item ` set (filter_due_next_3_days tz now xs)" by force
  qed
  show ?thesis using 1 2 by (simp add: timedelta_def)
qed

lemmas strptime_eval = strptime_def split_at_def year_field_def num_field_def day_field_def
  is_digit_def py_int_def digit_val_def days_in_month_def is_leap_def

lemmas datetime_eval = mk_datetime_def ymd2ord_def days_before_year_def days_before_month_def

text \<open>
  At \<open>now\<close> = 2026-01-01 00:00:00 local: due exactly at \<open>now\<close> and exactly at the cutoff
  (2026-01-04 12:00:00 local) are kept, one second before \<open>now\<close> and one second after the
  cutoff are dropped.
\<close>

theorem filter_due_window_witness:
  "work ''At now'' (Some ''2026-01-01T08:00:00Z'')
     \<in> item ` set (filter_due_next_3_days pst (mk_datetime 2026 1 1 0 0 0)
          [work ''Past'' (Some ''2026-01-01T07:59:59Z''), work ''At now'' (Some ''2026-01-01T08:00:00Z''),
           work ''At cutoff'' (Some ''2026-01-04T20:00:00Z''), work ''Late'' (Some ''2026-01-04T20:00:01Z'')])
   \<and> work ''At cutoff'' (Some ''2026-01-04T20:00:00Z'')
     \<in> item ` set (filter_due_next_3_days pst (mk_datetime 2026 1 1 0 0 0)
          [work ''Past'' (Some ''2026-01-01T07:59:59Z''), work ''At now'' (Some ''2026-01-01T08:00:00Z''),
           work ''At cutoff'' (Some ''2026-01-04T20:00:00Z''), work ''Late'' (Some ''2026-01-04T20:00:01Z'')])
   \<and> work ''Past'' (Some ''2026-01-01T07:59:59Z'')
     \<notin> item ` set (filter_due_next_3_days pst (mk_datetime 2026 1 1 0 0 0)
          [work ''Past'' (Some ''2026-01-01T07:59:59Z''), work ''At now'' (Some ''2026-01-01T08:00:00Z''),
           work ''At cutoff'' (Some ''2026-01-04T20:00:00Z''), work ''Late'' (Some ''2026-01-04T20:00:01Z'')])
   \<and> work ''Late'' (Some ''2026-01-04T20:00:01Z'')
     \<notin> item ` set (filter_due_next_3_days pst (mk_datetime 2026 1 1 0 0 0)
          [work ''Past'' (Some ''2026-01-01T07:59:59Z''), work ''At now'' (Some ''2026-01-01T08:00:00Z''),
           work ''At cutoff'' (Some ''2026-01-04T20:00:00Z''), work ''Late'' (Some ''2026-01-04T20:00:01Z'')])"
proof -
  let ?now = "mk_datetime 2026 1 1 0 0 0"
  let ?xs = "[work ''Past'' (Some ''2026-01-01T07:59:59Z''), work ''At now'' (Some ''2026-01-01T08:00:00Z''),
           work ''At cutoff'' (Some ''2026-01-04T20:00:00Z''), work ''Late'' (Some ''2026-01-04T20:00:01Z'')]"
  have n: "?now = 63902908800000000" by (simp add: datetime_eval)
  have p0: "strptime ''2026-01-01T07:59:59Z'' = Some 63902937599000000"
    by (simp add: strptime_eval datetime_eval)
  have p1: "strptime ''2026-01-01T08:00:00Z'' = Some 63902937600000000"
    by (simp add: strptime_eval datetime_eval)
  have p2: "strptime ''2026-01-04T20:00:00Z'' = Some 63903240000000000"
    by (simp add: strptime_eval datetime_eval)
  have p3: "strptime ''2026-01-04T20:00:01Z'' = Some 63903240001000000"
    by (simp add: strptime_eval datetime_eval)
  have z0: "astimezone pst 63902937599000000 = Some 63902908799000000"
    by (simp add: astimezone_def pst_def datetime_min_def datetime_max_def datetime_eval)
  have z1: "astimezone pst 63902937600000000 = Some 63902908800000000"
    by (simp add: astimezone_def pst_def datetime_min_def datetime_max_def datetime_eval)
  have z2: "astimezone pst 63903240000000000 = Some 63903211200000000"
    by (simp add: astimezone_def pst_def datetime_min_def datetime_max_def datetime_eval)
  have z3: "astimezone pst 63903240001000000 = Some 63903211201000000"
    by (simp add: astimezone_def pst_def datetime_min_def datetime_max_def datetime_eval)
  have d: "\<And>n s. due_at (work n (Some s)) = Some s" by (simp add: work_def)
  have m0: "work ''Past'' (Some ''2026-01-01T07:59:59Z'') \<in> set ?xs" by simp
  have m1: "work ''At now'' (Some ''2026-01-01T08:00:00Z'') \<in> set ?xs" by simp
  have m2: "work ''At cutoff'' (Some ''2026-01-04T20:00:00Z'') \<in> set ?xs" by simp
  have m3: "work ''Late'' (Some ''2026-01-04T20:00:01Z'') \<in> set ?xs" by simp
  show ?thesis
    using filter_due_window [OF m0 d p0 z0, of ?now] filter_due_window [OF m1 d p1 z1, of ?now]
      filter_due_window [OF m2 d p2 z2, of ?now] filter_due_window [OF m3 d p3 z3, of ?now]
    unfolding n by (simp add: timedelta_def)
qed

text \<open>
  Claim C9. An item whose \<^verbatim>\<open>due_at\<close> does not parse under the format is not in the output
  of the filter, and the output is the one the filter gives without that item: the
  \<^verbatim>\<open>ValueError\<close> is caught inside the loop, the filter returns its list, and the other items
  are processed as before.
\<close>

theorem unparsable_due_at_removed:
  assumes "due_at a = Some s" and "strptime s = None"
  shows "a \<notin> item ` set (filter_due_next_3_days tz now xs)
       \<and> filter_due_next_3_days tz now (ys @ a # zs) = filter_due_next_3_days tz now (ys @ zs)"
proof -
  have E: "due_soon_entry tz now c a = None" for c
    using assms by (simp add: due_soon_entry_def due_local_def)
  have "a \<notin> item ` set (filter_due_next_3_days tz now xs)"
  proof
    assume "a \<in> item ` set (filter_due_next_3_days tz now xs)"
    then obtain e b where "b \<in> set xs" "due_soon_entry tz now (now + timedelta 3 12) b = Some e" "item e = a"
      by (auto simp: set_filter_due)
    then have "due_soon_entry tz now (now + timedelta 3 12) a = Some e"
      using due_soon_entry_item by blast
    with E show False by simp
  qed
  moreover have "List.map_filter (due_soon_entry tz now c) (ys @ a # zs)
       = List.map_filter (due_soon_entry tz now c) (ys @ zs)" for c
    using E by (simp add: List.map_filter_def)
  then have "filter_due_next_3_days tz now (ys @ a # zs) = filter_due_next_3_days tz now (ys @ zs)"
    by (simp add: filter_due_next_3_days_def filter_loop_eq)
  ultimately show ?thesis by simp
qed

theorem unparsable_due_at_removed_witness:
  "work ''Bad'' (Some ''2026-01-02 10:00'') \<notin> item ` set (filter_due_next_3_days pst (mk_datetime 2026 1 1 0 0 0)
      [work ''Bad'' (Some ''2026-01-02 10:00''), work ''Good'' (Some ''2026-01-02T10:00:00Z'')])
   \<and> filter_due_next_3_days pst (mk_datetime 2026 1 1 0 0 0)
      [work ''Bad'' (Some ''2026-01-02 10:00''), work ''Good'' (Some ''2026-01-02T10:00:00Z'')]
     = [\<lparr>item = work ''Good'' (Some ''2026-01-02T10:00:00Z''),
         due_datetime_parsed = mk_datetime 2026 1 2 2 0 0, due_date_parsed = ymd2ord 2026 1 2\<rparr>]"
proof -
  have d: "due_at (work ''Bad'' (Some ''2026-01-02 10:00'')) = Some ''2026-01-02 10:00''"
    by (simp add: work_def)
  have p: "strptime ''2026-01-02 10:00'' = None"
    by (simp add: strptime_eval)
  have g: "filter_due_next_3_days pst (mk_datetime 2026 1 1 0 0 0) [work ''Good'' (Some ''2026-01-02T10:00:00Z'')]
     = [\<lparr>item = work ''Good'' (Some ''2026-01-02T10:00:00Z''),
         due_datetime_parsed = mk_datetime 2026 1 2 2 0 0, due_date_parsed = ymd2ord 2026 1 2\<rparr>]"
    by (simp add: filter_due_next_3_days_def due_soon_entry_def due_local_def work_def strptime_eval
        datetime_eval astimezone_def pst_def datetime_min_def datetime_max_def timedelta_def date_of_def)
  note r = unparsable_due_at_removed [OF d p, of pst "mk_datetime 2026 1 1 0 0 0"
        "[work ''Bad'' (Some ''2026-01-02 10:00''), work ''Good'' (Some ''2026-01-02T10:00:00Z'')]"
        "[]" "[work ''Good'' (Some ''2026-01-02T10:00:00Z'')]"]
  from r have 1: "work ''Bad'' (Some ''2026-01-02 10:00'') \<notin> item ` set (filter_due_next_3_days pst (mk_datetime 2026 1 1 0 0 0)
      [work ''Bad'' (Some ''2026-01-02 10:00''), work ''Good'' (Some ''2026-01-02T10:00:00Z'')])"
    by (rule conjunct1)
  from r g have 2: "filter_due_next_3_days pst (mk_datetime 2026 1 1 0 0 0)
      [work ''Bad'' (Some ''2026-01-02 10:00''), work ''Good'' (Some ''2026-01-02T10:00:00Z'')]
     = [\<lparr>item = work ''Good'' (Some ''2026-01-02T10:00:00Z''),
         due_datetime_parsed = mk_datetime 2026 1 2 2 0 0, due_date_parsed = ymd2ord 2026 1 2\<rparr>]"
    by (simp only: append_Nil)
  from 1 2 show ?thesis by (rule conjI)
qed

subsection \<open>The content curator: module selection\<close>

lemma modules_loop_eq: "modules_loop tz d ms acc = acc @ filter (module_kept tz d) ms"
  by (induction ms arbitrary: acc) auto

lemma set_get_modules:
  "set (get_modules_before_exam (Response 200 ms) tz d) = {m \<in> set ms. module_kept tz d m}"
  by (simp add: get_modules_before_exam_def modules_loop_eq)

lemma set_get_modules_subset:
  "m \<in> set (get_modules_before_exam r tz d) \<Longrightarrow> module_kept tz d m"
  by (cases r) (auto simp: get_modules_before_exam_def modules_loop_eq split: if_splits)

text \<open>
  Claim C3. For a module of a successful reply: when its lower-cased name contains a term
  of the denylist it is not selected, whatever its \<^verbatim>\<open>unlock_at\<close>; otherwise, when its
  \<^verbatim>\<open>unlock_at\<close> parses and converts to the local reading \<open>l\<close>, it is selected exactly when
  \<open>l < exam_date\<close>; otherwise, when it has no \<^verbatim>\<open>unlock_at\<close>, it is selected exactly when its
  name contains one of the markers "week", "chapter", "ch ", "module".
\<close>

theorem module_inclusion_policy:
  assumes "m \<in> set ms"
  shows "((\<exists>keyword \<in> set exclude_keywords. py_in keyword (lower (get_default (mod_name m) '''')))
            \<longrightarrow> m \<notin> set (get_modules_before_exam (Response 200 ms) tz exam_date))
       \<and> (\<not> (\<exists>keyword \<in> set exclude_keywords. py_in keyword (lower (get_default (mod_name m) '''')))
            \<longrightarrow> (\<forall>s l. unlock_at m = Some s \<and> due_local tz s = Some l
                   \<longrightarrow> (m \<in> set (get_modules_before_exam (Response 200 ms) tz exam_date) \<longleftrightarrow> l < exam_date))
              \<and> (\<not> truthy (unlock_at m)
                   \<longrightarrow> (m \<in> set (get_modules_before_exam (Response 200 ms) tz exam_date)
                        \<longleftrightarrow> (\<exists>indicator \<in> set module_indicators.
                               py_in indicator (lower (get_default (mod_name m) ''''))))))"
proof -
  have nonempty: "s \<noteq> []" if "due_local tz s = Some l" for s l
    using that strptime_Nil by (auto simp: due_local_def)
  show ?thesis
    using assms
    by (auto simp: set_get_modules module_kept_def Let_def list_ex_iff truthy_def dest: nonempty)
qed

text \<open>
  One second before the deadline is selected, one second after is not; "Week 5" without
  an unlock date is selected; "Library Guide" is not, although it unlocked weeks before;
  "Extras" has neither a date nor a marker and is not selected.
\<close>

theorem module_inclusion_policy_witness:
  "set (get_modules_before_exam
      (Response 200
        [container ''Unit A'' (Some ''2026-02-01T23:58:59Z''), container ''Unit B'' (Some ''2026-02-01T23:59:01Z''),
         container ''Week 5'' None, container ''Library Guide'' (Some ''2026-01-05T08:00:00Z''),
         container ''Extras'' None])
      pst (mk_datetime 2026 2 1 15 59 0))
   = {container ''Unit A'' (Some ''2026-02-01T23:58:59Z''), container ''Week 5'' None}"
proof -
  let ?ms = "[container ''Unit A'' (Some ''2026-02-01T23:58:59Z''), container ''Unit B'' (Some ''2026-02-01T23:59:01Z''),
         container ''Week 5'' None, container ''Library Guide'' (Some ''2026-01-05T08:00:00Z''),
         container ''Extras'' None]"
  let ?d = "mk_datetime 2026 2 1 15 59 0"
  let ?R = "set (get_modules_before_exam (Response 200 ?ms) pst ?d)"
  have dv: "?d = 63905644740000000" by (simp add: datetime_eval)
  have pa: "due_local pst ''2026-02-01T23:58:59Z'' = Some 63905644739000000"
    by (simp add: due_local_def strptime_eval datetime_eval astimezone_def pst_def
        datetime_min_def datetime_max_def)
  have pb: "due_local pst ''2026-02-01T23:59:01Z'' = Some 63905644741000000"
    by (simp add: due_local_def strptime_eval datetime_eval astimezone_def pst_def
        datetime_min_def datetime_max_def)
  have a: "container ''Unit A'' (Some ''2026-02-01T23:58:59Z'') \<in> ?R"
    using module_inclusion_policy [of "container ''Unit A'' (Some ''2026-02-01T23:58:59Z'')" ?ms pst ?d] pa
    unfolding dv
    by (simp add: container_def exclude_keywords_def get_default_def lower_def lower_char_def)
  have b: "container ''Unit B'' (Some ''2026-02-01T23:59:01Z'') \<notin> ?R"
    using module_inclusion_policy [of "container ''Unit B'' (Some ''2026-02-01T23:59:01Z'')" ?ms pst ?d] pb
    unfolding dv
    by (simp add: container_def exclude_keywords_def get_default_def lower_def lower_char_def)
  have c: "container ''Week 5'' None \<in> ?R"
    using module_inclusion_policy [of "container ''Week 5'' None" ?ms pst ?d]
    by (simp add: container_def exclude_keywords_def module_indicators_def get_default_def
        lower_def lower_char_def truthy_def)
  have d: "container ''Library Guide'' (Some ''2026-01-05T08:00:00Z'') \<notin> ?R"
    using module_inclusion_policy [of "container ''Library Guide'' (Some ''2026-01-05T08:00:00Z'')" ?ms pst ?d]
    by (simp add: container_def exclude_keywords_def get_default_def lower_def lower_char_def)
  have e: "container ''Extras'' None \<notin> ?R"
    using module_inclusion_policy [of "container ''Extras'' None" ?ms pst ?d]
    by (simp add: container_def exclude_keywords_def module_indicators_def get_default_def
        lower_def lower_char_def truthy_def)
  have sub: "?R \<subseteq> set ?ms" by (auto simp: set_get_modules)
  show ?thesis using a b c d e sub by auto
qed

text \<open>
  Claim C10. A module whose \<^verbatim>\<open>unlock_at\<close> is present (a non-empty string, the test
  \<^verbatim>\<open>if unlock_at:\<close> of the code) and does not parse under the format is not selected,
  whatever its name: the name markers are consulted only in the \<^verbatim>\<open>else\<close> branch of that
  test.
\<close>

theorem malformed_unlock_excluded:
  assumes "unlock_at m = Some s" and "s \<noteq> []" and "strptime s = None"
  shows "m \<notin> set (get_modules_before_exam response tz exam_date)"
proof
  assume "m \<in> set (get_modules_before_exam response tz exam_date)"
  then have "module_kept tz exam_date m" by (rule set_get_modules_subset)
  with assms show False
    by (auto simp: module_kept_def Let_def truthy_def due_local_def split: if_splits)
qed

text \<open>"Week 5" carries a marker and a date-only \<^verbatim>\<open>unlock_at\<close>: it is left out.\<close>

theorem malformed_unlock_excluded_witness:
  "get_modules_before_exam
      (Response 200 [container ''Week 5'' (Some ''2026-01-05''), container ''Week 6'' None])
      pst (mk_datetime 2026 2 1 15 59 0)
   = [container ''Week 6'' None]"
proof -
  have p: "strptime ''2026-01-05'' = None" by (simp add: strptime_eval)
  have u: "unlock_at (container ''Week 5'' (Some ''2026-01-05'')) = Some ''2026-01-05''"
    by (simp add: container_def)
  have n: "''2026-01-05'' \<noteq> []" by simp
  note r = malformed_unlock_excluded [OF u n p,
      of "Response 200 [container ''Week 5'' (Some ''2026-01-05''), container ''Week 6'' None]"
         pst "mk_datetime 2026 2 1 15 59 0"]
  have k: "module_kept pst (mk_datetime 2026 2 1 15 59 0) (container ''Week 6'' None)"
    by (simp add: module_kept_def container_def exclude_keywords_def module_indicators_def
        get_default_def lower_def lower_char_def truthy_def)
  from r have "\<not> module_kept pst (mk_datetime 2026 2 1 15 59 0) (container ''Week 5'' (Some ''2026-01-05''))"
    by (simp add: set_get_modules)
  with k show ?thesis
    by (simp add: get_modules_before_exam_def)
qed

subsection \<open>The collector\<close>

lemma tracks_simps [simp]: "tracks [] st = st" "tracks (x # xs) st = tracks xs (track x st)"
  by (simp_all add: tracks_def)

lemma tracks_append: "tracks (xs @ ys) st = tracks ys (tracks xs st)"
  by (simp add: tracks_def)

lemma planner_loop_tracks: "planner_loop ps st = tracks (map planner_assignment ps) st"
  by (induction ps arbitrary: st) auto

lemma assignments_loop_tracks:
  "assignments_loop c as st = tracks (map (course_assignment_record c) (filter (\<lambda>a. truthy (ca_due_at a)) as)) st"
  by (induction as arbitrary: st) auto

lemma courses_loop_tracks:
  "courses_loop reply cs st = map_option (\<lambda>xs. tracks xs st) (courses_candidates reply cs)"
proof (induction cs arbitrary: st)
  case Nil
  then show ?case by simp
next
  case (Cons c cs)
  show ?case
    by (cases "courses_candidates reply cs")
       (auto simp: Cons.IH course_candidates_def assignments_loop_tracks tracks_append
             split: option.splits response.splits)
qed

lemma all_items_tracks:
  "all_items (tracks xs st) =
     all_items st @ first_seen item_key (filter (\<lambda>a. item_key a \<notin> seen_items st) xs)"
proof (induction xs arbitrary: st)
  case Nil
  then show ?case by simp
next
  case (Cons x xs)
  show ?case
  proof (cases "item_key x \<in> seen_items st")
    case True
    then show ?thesis by (simp add: Cons.IH track_def)
  next
    case False
    have "filter (\<lambda>a. item_key a \<noteq> item_key x \<and> item_key a \<notin> seen_items st) xs
        = filter (\<lambda>y. item_key y \<noteq> item_key x) (filter (\<lambda>a. item_key a \<notin> seen_items st) xs)"
      by (simp add: conj_commute)
    with False show ?thesis by (simp add: Cons.IH track_def)
  qed
qed

lemma get_canvas_all_items_try_eq:
  "get_canvas_all_items_try inst = map_option (first_seen item_key) (candidates inst)"
  by (auto simp: get_canvas_all_items_try_def candidates_def planner_loop_tracks courses_loop_tracks
        all_items_tracks tracks_append [symmetric] option.map_comp comp_def Let_def
      split: response.splits option.splits)

lemma get_canvas_all_items_eq:
  "get_canvas_all_items inst =
     (case candidates inst of None \<Rightarrow> [] | Some cs \<Rightarrow> first_seen item_key cs)"
  by (simp add: get_canvas_all_items_def get_canvas_all_items_try_eq split: option.splits)

lemma set_first_seen_subset: "set (first_seen key xs) \<subseteq> set xs"
  by (induction key xs rule: first_seen.induct) auto

lemma distinct_first_seen: "distinct (map key (first_seen key xs))"
proof (induction key xs rule: first_seen.induct)
  case (1 key)
  then show ?case by simp
next
  case (2 key x xs)
  have "key x \<notin> key ` set (first_seen key (filter (\<lambda>y. key y \<noteq> key x) xs))"
    using set_first_seen_subset [of key "filter (\<lambda>y. key y \<noteq> key x) xs"] by auto
  with 2 show ?case by simp
qed

lemma first_seen_cong:
  "(\<And>x y. x \<in> set xs \<Longrightarrow> y \<in> set xs \<Longrightarrow> (k1 x = k1 y) = (k2 x = k2 y))
     \<Longrightarrow> first_seen k1 xs = first_seen k2 xs"
proof (induction k1 xs rule: first_seen.induct)
  case (1 key)
  then show ?case by simp
next
  case (2 key x xs)
  have f: "filter (\<lambda>y. key y \<noteq> key x) xs = filter (\<lambda>y. k2 y \<noteq> k2 x) xs"
    using "2.prems" by (intro filter_cong) auto
  have "first_seen key (filter (\<lambda>y. key y \<noteq> key x) xs)
      = first_seen k2 (filter (\<lambda>y. key y \<noteq> key x) xs)"
    using "2.prems" by (intro "2.IH") auto
  with f show ?case by simp
qed

lemma distinct_map_coarser:
  assumes "distinct (map f xs)" and fg: "\<And>x y. g x = g y \<Longrightarrow> f x = f y"
  shows "distinct (map g xs)"
  using assms(1)
proof (induction xs)
  case Nil
  then show ?case by simp
next
  case (Cons a xs)
  from Cons.prems have fa: "f a \<notin> f ` set xs" and d: "distinct (map f xs)" by simp_all
  have "g a \<notin> g ` set xs"
  proof
    assume "g a \<in> g ` set xs"
    then obtain b where b: "b \<in> set xs" and "g a = g b" by blast
    then have "f a = f b" by (rule_tac fg)
    with b fa show False by blast
  qed
  moreover from d have "distinct (map g xs)" by (rule Cons.IH)
  ultimately show ?case by simp
qed

lemma identity_key_item_key: "identity_key x = identity_key y \<Longrightarrow> item_key x = item_key y"
  by (simp add: identity_key_def item_key_def)
lemma append_sep_unique_left:
  "c \<notin> set xs \<Longrightarrow> c \<notin> set xs' \<Longrightarrow> xs @ c # ys = xs' @ c # ys' \<Longrightarrow> xs = xs' \<and> ys = ys'"
proof (induction xs arbitrary: xs')
  case Nil
  then show ?case by (cases xs') auto
next
  case (Cons a xs)
  show ?case
  proof (cases xs')
    case Nil
    with Cons.prems show ?thesis by auto
  next
    case (Cons b zs)
    with Cons.prems have "a = b" and "c \<notin> set xs" and "c \<notin> set zs" and "xs @ c # ys = zs @ c # ys'"
      by auto
    with Cons.IH [of zs] Cons show ?thesis by simp
  qed
qed

lemma append_sep_unique:
  assumes "xs @ c # ys = xs' @ c # ys'" and "c \<notin> set ys" and "c \<notin> set ys'"
  shows "xs = xs' \<and> ys = ys'"
proof -
  from assms(1) have "rev (xs @ c # ys) = rev (xs' @ c # ys')" by (rule arg_cong)
  then have "rev ys @ c # rev xs = rev ys' @ c # rev xs'" by simp
  moreover have "c \<notin> set (rev ys)" "c \<notin> set (rev ys')" using assms(2,3) by simp_all
  ultimately have "rev ys = rev ys' \<and> rev xs = rev xs'"
    by (rule_tac append_sep_unique_left)
  then show ?thesis by simp
qed

lemma py_str_plain: "due_plain d \<Longrightarrow> CHR ''_'' \<notin> set (py_str d)"
  by (auto simp: due_plain_def py_str_def split: option.splits)

lemma py_str_plain_inj: "due_plain d \<Longrightarrow> due_plain e \<Longrightarrow> py_str d = py_str e \<Longrightarrow> d = e"
  by (auto simp: due_plain_def py_str_def split: option.splits)

lemma item_key_identity_key:
  assumes "due_plain (due_at x)" and "due_plain (due_at y)" and "item_key x = item_key y"
  shows "identity_key x = identity_key y"
proof -
  from assms(3) have "name x @ CHR ''_'' # py_str (due_at x) = name y @ CHR ''_'' # py_str (due_at y)"
    by (simp add: item_key_def)
  moreover have "CHR ''_'' \<notin> set (py_str (due_at x))" "CHR ''_'' \<notin> set (py_str (due_at y))"
    using assms(1,2) by (simp_all add: py_str_plain)
  ultimately have "name x = name y \<and> py_str (due_at x) = py_str (due_at y)"
    by (rule append_sep_unique)
  moreover from this assms(1,2) have "due_at x = due_at y"
    by (simp add: py_str_plain_inj)
  ultimately show ?thesis
    by (simp add: identity_key_def)
qed

lemma candidates_due:
  assumes "candidates inst = Some cs" and "a \<in> set cs" and "\<not> truthy (due_at a)"
  shows "\<exists>items. planner_response inst = Response 200 items \<and> a \<in> planner_assignment ` set items"
proof -
  have cc: "course_candidates reply c = Some xs \<Longrightarrow> x \<in> set xs \<Longrightarrow> truthy (due_at x)" for reply c xs x
    by (auto simp: course_candidates_def course_assignment_record_def
          split: option.splits if_splits response.splits)
  have cs: "courses_candidates reply l = Some xs \<Longrightarrow> x \<in> set xs \<Longrightarrow> truthy (due_at x)" for reply l xs x
  proof (induction l arbitrary: xs)
    case Nil
    then show ?case by simp
  next
    case (Cons c l)
    then show ?case by (auto split: option.splits dest: cc)
  qed
  from assms show ?thesis
    by (auto simp: candidates_def split: response.splits if_splits dest: cs)
qed

lemma course_candidates_status:
  "status \<noteq> 200 \<Longrightarrow>
     course_candidates (reply(cid := Response status body)) c
       = course_candidates (reply(cid := Response 200 [])) c"
  by (simp add: course_candidates_def split: option.splits)

lemma courses_candidates_status:
  "status \<noteq> 200 \<Longrightarrow>
     courses_candidates (reply(cid := Response status body)) cs
       = courses_candidates (reply(cid := Response 200 [])) cs"
proof (induction cs)
  case Nil
  then show ?case by simp
next
  case (Cons c cs)
  from Cons.prems have "course_candidates (reply(cid := Response status body)) c
       = course_candidates (reply(cid := Response 200 [])) c"
    by (rule course_candidates_status)
  moreover from Cons.prems have "courses_candidates (reply(cid := Response status body)) cs
       = courses_candidates (reply(cid := Response 200 [])) cs"
    by (rule Cons.IH)
  ultimately show ?case by (simp only: courses_candidates.simps)
qed

lemma courses_candidates_raised:
  "c \<in> set cs \<Longrightarrow> course_candidates reply c = None \<Longrightarrow> courses_candidates reply cs = None"
  by (induction cs) (auto split: option.splits)

lemma instances_loop_eq:
  "instances_loop xs acc = acc @ concat (map get_canvas_all_items xs)"
  by (induction xs arbitrary: acc) auto

lemmas collector_eval = get_canvas_all_items_def get_canvas_all_items_try_def campus_def
  planner_assignment_def course_assignment_record_def track_def item_key_def py_str_def
  get_default_def get_or_def truthy_def Let_def

text \<open>
  Claim C1, as the code has it. The list collected from one instance never holds two
  records with the same identity key: it is the candidates of that instance, planner
  entries first and then the assignments of each course, each kept when its key has not
  been seen before. The aggregate of \<^verbatim>\<open>main\<close> is the concatenation of these lists over the
  instances; nothing is compared across instances.
\<close>

theorem instance_items_distinct:
  "distinct (map identity_key (get_canvas_all_items inst))
   \<and> get_canvas_all_items inst =
       (case candidates inst of None \<Rightarrow> [] | Some cs \<Rightarrow> first_seen item_key cs)
   \<and> collect_all_assignments instances = concat (map get_canvas_all_items instances)"
proof -
  have "distinct (map item_key (get_canvas_all_items inst))"
    by (simp add: get_canvas_all_items_eq distinct_first_seen split: option.splits)
  then have 1: "distinct (map identity_key (get_canvas_all_items inst))"
    by (rule distinct_map_coarser) (rule identity_key_item_key)
  have "instances_loop xs acc = acc @ concat (map get_canvas_all_items xs)" for xs acc
    by (induction xs arbitrary: acc) auto
  then have 2: "collect_all_assignments instances = concat (map get_canvas_all_items instances)"
    by (simp add: collect_all_assignments_def)
  from 1 2 show ?thesis by (simp add: get_canvas_all_items_eq)
qed

text \<open>
  The scenario of the specification: the planner and the course list both report
  "Essay 1", with different descriptions; one record remains, the planner's.
\<close>

theorem instance_items_distinct_witness:
  "distinct (map identity_key (get_canvas_all_items
       (campus (Response 200 [essay_planner]) (Response 200 [writing]) (Response 200 [essay_listed]))))
   \<and> get_canvas_all_items
       (campus (Response 200 [essay_planner]) (Response 200 [writing]) (Response 200 [essay_listed]))
     = [planner_assignment essay_planner]
   \<and> description (planner_assignment essay_planner) = Some ''From the planner''"
proof -
  let ?I = "campus (Response 200 [essay_planner]) (Response 200 [writing]) (Response 200 [essay_listed])"
  have c: "candidates ?I = Some [planner_assignment essay_planner, course_assignment_record writing essay_listed]"
    by (simp add: candidates_def course_candidates_def campus_def writing_def essay_listed_def
        get_default_def truthy_def)
  have k: "item_key (course_assignment_record writing essay_listed) = item_key (planner_assignment essay_planner)"
    by (simp add: collector_eval essay_planner_def essay_listed_def)
  have d: "description (planner_assignment essay_planner) = Some ''From the planner''"
    by (simp add: collector_eval essay_planner_def)
  from instance_items_distinct [of ?I "[]"] c k d show ?thesis by simp
qed

text \<open>
  Against claim C1 as stated: two instances that both report "Essay 1" with the same
  deadline leave two records with equal identity keys in the aggregate.
\<close>

theorem cross_instance_duplicates:
  "\<not> distinct (map identity_key (collect_all_assignments
       [campus (Response 200 [essay_planner]) (Response 200 [writing]) (Response 200 [essay_listed]),
        campus (Response 200 []) (Response 200 [writing]) (Response 200 [essay_listed])]))"
  by (simp add: collect_all_assignments_def collector_eval identity_key_def essay_planner_def
      essay_listed_def writing_def)

lemma split_at_Some:
  assumes "split_at p s = Some (a, r)"
  shows "\<exists>c. s = a @ c # r \<and> p c"
proof -
  from assms obtain c where d: "dropWhile (\<lambda>c. \<not> p c) s = c # r" and a: "a = takeWhile (\<lambda>c. \<not> p c) s"
    by (auto simp: split_at_def split: list.splits)
  have "s = takeWhile (\<lambda>c. \<not> p c) s @ dropWhile (\<lambda>c. \<not> p c) s" by simp
  with d a have "s = a @ c # r" by simp
  moreover from d have "p c" using hd_dropWhile [of "\<lambda>c. \<not> p c" s] by auto
  ultimately show ?thesis by blast
qed

lemma is_digit_not_underscore: "is_digit c \<Longrightarrow> c \<noteq> CHR ''_''"
  by (auto simp: is_digit_def)

lemma num_field_plain: "num_field lo hi s = Some v \<Longrightarrow> CHR ''_'' \<notin> set s"
  by (auto simp: num_field_def list_all_iff split: if_splits dest: is_digit_not_underscore)

lemma year_field_plain: "year_field s = Some v \<Longrightarrow> CHR ''_'' \<notin> set s"
  by (auto simp: year_field_def list_all_iff split: if_splits dest: is_digit_not_underscore)

lemma day_field_plain: "day_field s = Some v \<Longrightarrow> CHR ''_'' \<notin> set s"
  by (auto simp: day_field_def split: list.splits if_splits
        dest: is_digit_not_underscore num_field_plain)

lemma strptime_due_plain:
  assumes "strptime s = Some u"
  shows "due_plain (Some s)"
proof -
  from assms obtain ys r1 year ms r2 month ds r3 day hs r4 hour mins r5 minute ss r6 second where
    1: "split_at (\<lambda>c. c = CHR ''-'') s = Some (ys, r1)" and y: "year_field ys = Some year" and
    2: "split_at (\<lambda>c. c = CHR ''-'') r1 = Some (ms, r2)" and m: "num_field 1 12 ms = Some month" and
    3: "split_at (\<lambda>c. c = CHR ''T'' \<or> c = CHR ''t'') r2 = Some (ds, r3)" and d: "day_field ds = Some day" and
    4: "split_at (\<lambda>c. c = CHR '':'') r3 = Some (hs, r4)" and h: "num_field 0 23 hs = Some hour" and
    5: "split_at (\<lambda>c. c = CHR '':'') r4 = Some (mins, r5)" and mi: "num_field 0 59 mins = Some minute" and
    6: "split_at (\<lambda>c. c = CHR ''Z'' \<or> c = CHR ''z'') r5 = Some (ss, r6)" and se: "num_field 0 61 ss = Some second" and
    e: "r6 = []"
    by (auto simp: strptime_def bind_eq_Some_conv split: if_splits)
  from split_at_Some [OF 1] obtain c1 where s1: "s = ys @ c1 # r1" "c1 = CHR ''-''" by blast
  from split_at_Some [OF 2] obtain c2 where s2: "r1 = ms @ c2 # r2" "c2 = CHR ''-''" by blast
  from split_at_Some [OF 3] obtain c3 where s3: "r2 = ds @ c3 # r3" "c3 = CHR ''T'' \<or> c3 = CHR ''t''" by blast
  from split_at_Some [OF 4] obtain c4 where s4: "r3 = hs @ c4 # r4" "c4 = CHR '':''" by blast
  from split_at_Some [OF 5] obtain c5 where s5: "r4 = mins @ c5 # r5" "c5 = CHR '':''" by blast
  from split_at_Some [OF 6] obtain c6 where s6: "r5 = ss @ c6 # r6" "c6 = CHR ''Z'' \<or> c6 = CHR ''z''" by blast
  have "CHR ''_'' \<notin> set r5" using s6 e num_field_plain [OF se] by auto
  then have "CHR ''_'' \<notin> set r4" using s5 num_field_plain [OF mi] by auto
  then have "CHR ''_'' \<notin> set r3" using s4 num_field_plain [OF h] by auto
  then have "CHR ''_'' \<notin> set r2" using s3 day_field_plain [OF d] by auto
  then have "CHR ''_'' \<notin> set r1" using s2 num_field_plain [OF m] by auto
  then have u: "CHR ''_'' \<notin> set s" using s1 year_field_plain [OF y] by auto
  from s1 have "CHR ''-'' \<in> set s" by simp
  then have "s \<noteq> ''None''" by auto
  with u show ?thesis by (simp add: due_plain_def)
qed

text \<open>
  The collector merges by the key \<^verbatim>\<open>name + "_" + str(due_at)\<close>: its result is the first-seen
  selection by that key. Records with equal name and deadline have equal keys. Records
  with equal keys have equal name and deadline when each deadline is absent or a string
  without an underscore other than the text \<^verbatim>\<open>None\<close>, and every string that parses under
  the format of the source is such a string.
\<close>

lemma merged_by_item_key:
  assumes "candidates inst = Some cs"
  shows "get_canvas_all_items inst = first_seen item_key cs
       \<and> (\<forall>x y. identity_key x = identity_key y \<longrightarrow> item_key x = item_key y)
       \<and> (\<forall>x y. due_plain (due_at x) \<and> due_plain (due_at y) \<and> item_key x = item_key y
             \<longrightarrow> identity_key x = identity_key y)
       \<and> ((\<forall>a \<in> set cs. due_plain (due_at a))
             \<longrightarrow> get_canvas_all_items inst = first_seen identity_key cs)
       \<and> (\<forall>s u. strptime s = Some u \<longrightarrow> due_plain (Some s))"
proof -
  have 1: "get_canvas_all_items inst = first_seen item_key cs"
    using assms by (simp add: get_canvas_all_items_eq)
  have 4: "get_canvas_all_items inst = first_seen identity_key cs"
    if "\<forall>a \<in> set cs. due_plain (due_at a)"
    unfolding 1 using that
    by (intro first_seen_cong) (auto dest: identity_key_item_key item_key_identity_key)
  show ?thesis
    using 1 4 by (auto dest: identity_key_item_key item_key_identity_key strptime_due_plain)
qed

lemma source_deadline_plain: "source_deadline d \<Longrightarrow> due_plain d"
proof (cases d)
  case None
  then show ?thesis by (simp add: due_plain_def)
next
  case (Some s)
  assume "source_deadline d"
  with Some obtain u where "strptime s = Some u" by (auto simp: source_deadline_def)
  then have "due_plain (Some s)" by (rule strptime_due_plain)
  with Some show ?thesis by simp
qed

text \<open>
  Claim C4. In one run of the collector over work items of the data model (the deadline
  absent, or a timestamp in the format of the source), two candidates are merged into one
  record exactly when their names are equal and their \<^verbatim>\<open>due_at\<close> are equal, as strings and
  without normalisation: the keys of two candidates are equal exactly then, and the result
  is the first-seen selection by the pair of name and \<^verbatim>\<open>due_at\<close>.
\<close>

theorem merged_iff_same_name_and_due_at:
  assumes "candidates inst = Some cs" and "\<forall>a \<in> set cs. source_deadline (due_at a)"
  shows "get_canvas_all_items inst = first_seen identity_key cs
       \<and> (\<forall>x \<in> set cs. \<forall>y \<in> set cs.
             item_key x = item_key y \<longleftrightarrow> name x = name y \<and> due_at x = due_at y)"
proof -
  from assms(2) have plain: "\<forall>a \<in> set cs. due_plain (due_at a)"
    by (blast intro: source_deadline_plain)
  from merged_by_item_key [OF assms(1)] plain
  have 1: "get_canvas_all_items inst = first_seen identity_key cs" by blast
  have 2: "item_key x = item_key y \<longleftrightarrow> name x = name y \<and> due_at x = due_at y"
    if "x \<in> set cs" and "y \<in> set cs" for x y
  proof
    assume "item_key x = item_key y"
    moreover from plain that have "due_plain (due_at x)" and "due_plain (due_at y)" by blast+
    ultimately have "identity_key x = identity_key y" by (rule_tac item_key_identity_key)
    then show "name x = name y \<and> due_at x = due_at y" by (simp add: identity_key_def)
  next
    assume "name x = name y \<and> due_at x = due_at y"
    then show "item_key x = item_key y" by (simp add: item_key_def)
  qed
  from 1 2 show ?thesis by blast
qed

text \<open>
  The planner and the course list report "Essay 1" due \<^verbatim>\<open>2026-02-01T23:59:00Z\<close>, and the course
  list reports it once more with the same instant written \<^verbatim>\<open>2026-2-1T23:59:00Z\<close>. The first
  two are merged; the third differs in \<^verbatim>\<open>due_at\<close> as a string and stays.
\<close>

theorem merged_iff_same_name_and_due_at_witness:
  "get_canvas_all_items
       (campus (Response 200 [essay_planner]) (Response 200 [writing])
          (Response 200 [essay_listed, essay_variant]))
     = [planner_assignment essay_planner, course_assignment_record writing essay_variant]
   \<and> item_key (course_assignment_record writing essay_listed)
       = item_key (planner_assignment essay_planner)
   \<and> item_key (course_assignment_record writing essay_variant)
       \<noteq> item_key (planner_assignment essay_planner)"
proof -
  let ?I = "campus (Response 200 [essay_planner]) (Response 200 [writing])
              (Response 200 [essay_listed, essay_variant])"
  let ?cs = "[planner_assignment essay_planner, course_assignment_record writing essay_listed,
              course_assignment_record writing essay_variant]"
  have c: "candidates ?I = Some ?cs"
    by (simp add: candidates_def course_candidates_def campus_def writing_def essay_listed_def
        essay_variant_def get_default_def truthy_def)
  have d1: "due_at (planner_assignment essay_planner) = Some ''2026-02-01T23:59:00Z''"
    and d2: "due_at (course_assignment_record writing essay_listed) = Some ''2026-02-01T23:59:00Z''"
    and d3: "due_at (course_assignment_record writing essay_variant) = Some ''2026-2-1T23:59:00Z''"
    by (simp_all add: collector_eval essay_planner_def essay_listed_def essay_variant_def)
  have n: "name (planner_assignment essay_planner) = ''Essay 1''"
    "name (course_assignment_record writing essay_listed) = ''Essay 1''"
    "name (course_assignment_record writing essay_variant) = ''Essay 1''"
    by (simp_all add: collector_eval essay_planner_def essay_listed_def essay_variant_def)
  have p1: "strptime ''2026-02-01T23:59:00Z'' \<noteq> None"
    by (simp add: strptime_eval)
  have p2: "strptime ''2026-2-1T23:59:00Z'' \<noteq> None"
    by (simp add: strptime_eval)
  have s: "\<forall>a \<in> set ?cs. source_deadline (due_at a)"
    using p1 p2 by (simp add: source_deadline_def d1 d2 d3)
  note r = merged_iff_same_name_and_due_at [OF c s]
  have i: "identity_key (course_assignment_record writing essay_listed)
             = identity_key (planner_assignment essay_planner)"
    "identity_key (course_assignment_record writing essay_variant)
             \<noteq> identity_key (planner_assignment essay_planner)"
    by (simp_all add: identity_key_def d1 d2 d3 n)
  from r have "get_canvas_all_items ?I = first_seen identity_key ?cs" by (rule conjunct1)
  with i have 1: "get_canvas_all_items ?I
     = [planner_assignment essay_planner, course_assignment_record writing essay_variant]"
    by simp
  from r have k: "\<forall>x \<in> set ?cs. \<forall>y \<in> set ?cs.
             item_key x = item_key y \<longleftrightarrow> name x = name y \<and> due_at x = due_at y"
    by (rule conjunct2)
  have in_cs: "planner_assignment essay_planner \<in> set ?cs"
    "course_assignment_record writing essay_listed \<in> set ?cs"
    "course_assignment_record writing essay_variant \<in> set ?cs"
    by simp_all
  note k_listed = k [rule_format, OF in_cs(2) in_cs(1)]
  note k_variant = k [rule_format, OF in_cs(3) in_cs(1)]
  have 2: "item_key (course_assignment_record writing essay_listed)
       = item_key (planner_assignment essay_planner)"
    unfolding k_listed by (simp add: d1 d2 n)
  have 3: "item_key (course_assignment_record writing essay_variant)
       \<noteq> item_key (planner_assignment essay_planner)"
    unfolding k_variant by (simp add: d1 d3 n)
  from 1 2 3 show ?thesis by (intro conjI)
qed

text \<open>
  The condition on the deadlines is needed. A \<^verbatim>\<open>due_at\<close> with an underscore is no
  timestamp of the source; with such values two records that differ in name and in
  \<^verbatim>\<open>due_at\<close> can have the same key.
\<close>

lemma item_key_not_injective:
  "get_canvas_all_items
     (campus (Response 200 [titled ''Unit_2'' (Some ''2026-02-01T23:59:00Z''),
                            titled ''Unit'' (Some ''2_2026-02-01T23:59:00Z'')])
             (Response 200 []) (Response 200 []))
     = [planner_assignment (titled ''Unit_2'' (Some ''2026-02-01T23:59:00Z''))]
   \<and> strptime ''2_2026-02-01T23:59:00Z'' = None"
  by (simp add: collector_eval titled_def strptime_eval)

text \<open>
  Claim C7, as the code has it. The loop over a course's assignments skips every
  assignment without a deadline (\<^verbatim>\<open>if not a.get('due_at'): continue\<close>), so a record of the
  collector's output without a deadline is a planner entry.
\<close>

theorem undated_items_only_from_planner:
  assumes "a \<in> set (get_canvas_all_items inst)" and "\<not> truthy (due_at a)"
  shows "\<exists>items. planner_response inst = Response 200 items \<and> a \<in> planner_assignment ` set items"
proof -
  show ?thesis
  proof (cases "candidates inst")
    case None
    with assms(1) have False by (simp add: get_canvas_all_items_eq)
    then show ?thesis ..
  next
    case (Some cs)
    with assms(1) have "a \<in> set (first_seen item_key cs)" by (simp add: get_canvas_all_items_eq)
    then have "a \<in> set cs" by (rule subsetD [OF set_first_seen_subset])
    with Some show ?thesis using assms(2) by (rule candidates_due)
  qed
qed

theorem undated_items_only_from_planner_witness:
  "planner_assignment office_hours
      \<in> set (get_canvas_all_items
               (campus (Response 200 [office_hours]) (Response 200 [writing]) (Response 200 [reading_log])))
   \<and> \<not> truthy (due_at (planner_assignment office_hours))
   \<and> (\<exists>items. planner_response
                  (campus (Response 200 [office_hours]) (Response 200 [writing]) (Response 200 [reading_log]))
                = Response 200 items
              \<and> planner_assignment office_hours \<in> planner_assignment ` set items)"
proof -
  let ?I = "campus (Response 200 [office_hours]) (Response 200 [writing]) (Response 200 [reading_log])"
  have m: "planner_assignment office_hours \<in> set (get_canvas_all_items ?I)"
    by (simp add: collector_eval office_hours_def writing_def reading_log_def)
  have t: "\<not> truthy (due_at (planner_assignment office_hours))"
    by (simp add: collector_eval office_hours_def)
  from undated_items_only_from_planner [OF m t] m t show ?thesis by (intro conjI)
qed

text \<open>
  Against claim C7 as stated: a course assignment without a deadline is not in the
  collector's output.
\<close>

theorem undated_course_assignment_dropped:
  "\<not> truthy (ca_due_at reading_log)
   \<and> course_assignment_record writing reading_log
       \<notin> set (get_canvas_all_items
                (campus (Response 200 []) (Response 200 [writing]) (Response 200 [reading_log])))"
  by (simp add: collector_eval reading_log_def writing_def)

text \<open>
  Claim C8, as the code has it. A reply with a status other than 200, from the planner
  request, the courses request or the assignments request of one course, counts as an
  empty reply to that request and changes nothing else. A request that raises, in either
  retrieval method or in the fetch of one course that is not skipped, makes
  \<^verbatim>\<open>get_canvas_all_items\<close> return the empty list for that instance. In both cases the lists
  of the other instances are in the aggregate unchanged.
\<close>

theorem failure_policy:
  "(status \<noteq> 200 \<longrightarrow>
      get_canvas_all_items (inst\<lparr>planner_response := Response status pbody\<rparr>)
        = get_canvas_all_items (inst\<lparr>planner_response := Response 200 []\<rparr>))
   \<and> (status \<noteq> 200 \<longrightarrow>
      get_canvas_all_items (inst\<lparr>courses_response := Response status cbody\<rparr>)
        = get_canvas_all_items (inst\<lparr>courses_response := Response 200 []\<rparr>))
   \<and> (status \<noteq> 200 \<longrightarrow>
      get_canvas_all_items
          (inst\<lparr>assignments_response := (assignments_response inst)(cid := Response status abody)\<rparr>)
        = get_canvas_all_items
          (inst\<lparr>assignments_response := (assignments_response inst)(cid := Response 200 [])\<rparr>))
   \<and> (planner_response inst = Raised \<or> courses_response inst = Raised
        \<longrightarrow> get_canvas_all_items inst = [])
   \<and> (planner_response inst = Response pstatus pitems \<and> courses_response inst = Response 200 cs
        \<and> c \<in> set cs \<and> course_id c = Some cid
        \<and> get_default (workflow_state c) '''' \<notin> set [''completed'', ''deleted'']
        \<and> assignments_response inst cid = Raised
        \<longrightarrow> get_canvas_all_items inst = [])
   \<and> collect_all_assignments (before @ inst # after)
        = collect_all_assignments before @ get_canvas_all_items inst @ collect_all_assignments after"
proof -
  have 1: "get_canvas_all_items (inst\<lparr>planner_response := Response status pbody\<rparr>)
        = get_canvas_all_items (inst\<lparr>planner_response := Response 200 []\<rparr>)" if "status \<noteq> 200"
    using that by (simp add: get_canvas_all_items_eq candidates_def split: response.splits)
  have 2: "get_canvas_all_items (inst\<lparr>courses_response := Response status cbody\<rparr>)
        = get_canvas_all_items (inst\<lparr>courses_response := Response 200 []\<rparr>)" if "status \<noteq> 200"
    using that by (simp add: get_canvas_all_items_eq candidates_def split: response.splits)
  have 3: "get_canvas_all_items
          (inst\<lparr>assignments_response := (assignments_response inst)(cid := Response status abody)\<rparr>)
        = get_canvas_all_items
          (inst\<lparr>assignments_response := (assignments_response inst)(cid := Response 200 [])\<rparr>)"
    if "status \<noteq> 200"
    using that
    by (simp add: get_canvas_all_items_eq candidates_def courses_candidates_status
          split: response.splits)
  have 4: "get_canvas_all_items inst = []"
    if "planner_response inst = Raised \<or> courses_response inst = Raised"
    using that by (auto simp: get_canvas_all_items_eq candidates_def split: response.splits)
  have 5: "get_canvas_all_items inst = []"
    if h: "planner_response inst = Response pstatus pitems \<and> courses_response inst = Response 200 cs
        \<and> c \<in> set cs \<and> course_id c = Some cid
        \<and> get_default (workflow_state c) '''' \<notin> set [''completed'', ''deleted'']
        \<and> assignments_response inst cid = Raised"
  proof -
    from h have "course_candidates (assignments_response inst) c = None"
      by (simp add: course_candidates_def)
    with h have "courses_candidates (assignments_response inst) cs = None"
      using courses_candidates_raised by blast
    with h show ?thesis
      by (simp add: get_canvas_all_items_eq candidates_def)
  qed
  have 6: "collect_all_assignments (before @ inst # after)
        = collect_all_assignments before @ get_canvas_all_items inst @ collect_all_assignments after"
    by (simp add: collect_all_assignments_def instances_loop_eq)
  from 1 2 3 4 5 6 show ?thesis by blast
qed

theorem failure_policy_witness:
  "get_canvas_all_items (campus (Response 503 []) (Response 200 [writing]) (Response 200 [essay_listed]))
     = [course_assignment_record writing essay_listed]
   \<and> get_canvas_all_items (campus (Response 200 [essay_planner]) (Response 200 [writing]) (Response 404 []))
     = [planner_assignment essay_planner]
   \<and> get_canvas_all_items (campus (Response 200 [essay_planner]) (Response 200 [writing]) Raised) = []
   \<and> collect_all_assignments
       [campus (Response 200 [essay_planner]) (Response 200 [writing]) Raised,
        campus (Response 503 []) (Response 200 [writing]) (Response 200 [essay_listed])]
     = [course_assignment_record writing essay_listed]"
proof -
  let ?ok = "campus (Response 200 [essay_planner]) (Response 200 [writing]) (Response 200 [essay_listed])"
  let ?bad = "campus (Response 200 [essay_planner]) (Response 200 [writing]) Raised"
  let ?deg = "campus (Response 503 []) (Response 200 [writing]) (Response 200 [essay_listed])"
  note f1 = failure_policy [where status = 503 and inst = ?ok and pbody = "[]"]
  note f2 = failure_policy [where status = 404 and inst = ?ok and cid = 7 and abody = "[]"]
  note f3 = failure_policy [where inst = ?bad and pstatus = 200 and pitems = "[essay_planner]"
      and cs = "[writing]" and c = writing and cid = 7 and before = "[]" and after = "[?deg]"]
  have a: "get_canvas_all_items ?deg = [course_assignment_record writing essay_listed]"
    using f1 by (simp add: campus_def collector_eval essay_listed_def writing_def)
  have b: "get_canvas_all_items (campus (Response 200 [essay_planner]) (Response 200 [writing]) (Response 404 []))
     = [planner_assignment essay_planner]"
    using f2 by (simp add: campus_def collector_eval essay_planner_def writing_def fun_upd_def)
  have c: "get_canvas_all_items ?bad = []"
    using f3 by (simp add: campus_def writing_def get_default_def)
  have d: "collect_all_assignments [?bad, ?deg] = [course_assignment_record writing essay_listed]"
    using f3 a c by (simp add: collect_all_assignments_def)
  from a b c d show ?thesis by (intro conjI)
qed

text \<open>
  Against claim C8 as stated: when the courses request raises, the planner entry already
  gathered for the same instance is not returned; when it answers 500, it is.
\<close>

theorem raised_call_discards_partial_results:
  "get_canvas_all_items (campus (Response 200 [essay_planner]) Raised (Response 200 [])) = []
   \<and> get_canvas_all_items (campus (Response 200 [essay_planner]) (Response 500 []) (Response 200 []))
       = [planner_assignment essay_planner]"
  by (simp add: collector_eval essay_planner_def)

subsection \<open>The content curator: retrieved text\<close>

lemmas clean_eval = clean_html_def truthy_def py_str_def strip_def is_space_def tag_end_def

lemma items_loop_eq:
  "items_loop w n is acc = acc @ List.map_filter (item_content w n) is"
  by (induction "is" arbitrary: acc) (auto simp: List.map_filter_simps split: option.splits)

lemma content_modules_loop_eq:
  "content_modules_loop w ms acc =
     acc @ concat (map (\<lambda>m. List.map_filter (item_content w (get_default (mod_name m) ''Module''))
                               (mod_items m)) ms)"
  by (induction ms arbitrary: acc) (simp_all add: items_loop_eq)

lemma add_question_distinct:
  assumes "plain_question q" and "distinct (map first100 acc)"
  shows "distinct (map first100 (add_question t n q acc))"
proof (cases "clean_html (question_text q) \<noteq> []
    \<and> \<not> list_ex (\<lambda>e. take 100 (qq_question e) = take 100 (clean_html (question_text q))) acc")
  case True
  then have new: "take 100 (clean_html (question_text q)) \<notin> first100 ` set acc"
    by (auto simp: list_ex_iff first100_def)
  from True have "add_question t n q acc = acc @ [question_entry t n q]"
    by (simp add: add_question_def Let_def)
  moreover have "first100 (question_entry t n q) = take 100 (clean_html (question_text q))"
    using assms(1) by (simp add: first100_def plain_question_def question_entry_def)
  ultimately show ?thesis using assms(2) new by simp
next
  case False
  then have "add_question t n q acc = acc"
    by (auto simp: add_question_def Let_def)
  with assms(2) show ?thesis by simp
qed

lemma questions_loop_distinct:
  "\<forall>q \<in> set qs. plain_question q \<Longrightarrow> distinct (map first100 acc)
     \<Longrightarrow> distinct (map first100 (questions_loop t n qs acc))"
proof (induction qs arbitrary: acc)
  case Nil
  then show ?case by simp
next
  case (Cons q qs)
  from Cons.prems have "distinct (map first100 (add_question t n q acc))"
    by (intro add_question_distinct) simp_all
  with Cons.prems show ?case
    by (simp add: Cons.IH)
qed

lemma submissions_loop_distinct:
  assumes "plain_replies w"
  shows "distinct (map first100 acc) \<Longrightarrow> distinct (map first100 (submissions_loop w t subs acc))"
proof (induction subs arbitrary: acc)
  case Nil
  then show ?case by simp
next
  case (Cons sub subs)
  show ?case
  proof (cases "submission_id sub")
    case None
    with Cons show ?thesis by simp
  next
    case (Some sid)
    show ?thesis
    proof (cases "questions_reply w sid")
      case Raised
      with Some Cons show ?thesis by simp
    next
      case (Response sc qd)
      have plain: "\<forall>q \<in> set (get_default (quiz_submission_questions qd) []). plain_question q"
        using assms Response
        by (cases "quiz_submission_questions qd") (auto simp: plain_replies_def get_default_def)
      have d: "distinct (map first100 (questions_loop t (get_default (submission_attempt sub) 1)
                 (get_default (quiz_submission_questions qd) []) acc))"
        using plain Cons.prems by (rule questions_loop_distinct)
      from Some Response d Cons show ?thesis
        by (simp add: Let_def)
    qed
  qed
qed

lemma quiz_attempts_distinct:
  "plain_replies w \<Longrightarrow> distinct (map first100 acc) \<Longrightarrow> distinct (map first100 (quiz_attempts w qz acc))"
  by (simp add: quiz_attempts_def submissions_loop_distinct split: response.splits)

lemma quizzes_loop_distinct:
  "plain_replies w \<Longrightarrow> distinct (map first100 acc)
     \<Longrightarrow> distinct (map first100 (quizzes_loop w tz d qzs acc))"
proof (induction qzs arbitrary: acc)
  case Nil
  then show ?case by simp
next
  case (Cons qz qzs)
  from Cons.prems have "distinct (map first100 (quiz_attempts w qz acc))"
    by (rule quiz_attempts_distinct)
  with Cons show ?case by (simp add: Let_def)
qed

lemma get_quiz_questions_distinct:
  "plain_replies w \<Longrightarrow> distinct (map first100 (get_quiz_questions w tz d))"
  by (simp add: get_quiz_questions_def quizzes_loop_distinct split: response.splits)

lemma first100_question_entry:
  "plain_question q \<Longrightarrow> first100 (question_entry t n q) = take 100 (clean_html (question_text q))"
  by (simp add: first100_def plain_question_def question_entry_def)

lemma questions_loop_first_seen:
  assumes "\<forall>q \<in> set qs. plain_question q"
  shows "questions_loop t n qs acc =
     acc @ first_seen first100
             (filter (\<lambda>e. first100 e \<notin> first100 ` set acc)
                (map (question_entry t n) (filter (\<lambda>q. clean_html (question_text q) \<noteq> []) qs)))"
  using assms
proof (induction qs arbitrary: acc)
  case Nil
  then show ?case by simp
next
  case (Cons q qs)
  let ?E = "map (question_entry t n) (filter (\<lambda>q. clean_html (question_text q) \<noteq> []) qs)"
  from Cons.prems have pq: "plain_question q" and rest: "\<forall>q \<in> set qs. plain_question q"
    by simp_all
  note f = first100_question_entry [OF pq, of t n]
  note IH = Cons.IH [OF rest]
  show ?case
  proof (cases "clean_html (question_text q) = []")
    case True
    then have "add_question t n q acc = acc" by (simp add: add_question_def Let_def)
    with True show ?thesis by (simp add: IH)
  next
    case False
    show ?thesis
    proof (cases "take 100 (clean_html (question_text q)) \<in> first100 ` set acc")
      case True
      then have "add_question t n q acc = acc"
        by (auto simp: add_question_def Let_def list_ex_iff first100_def)
      with True False f show ?thesis by (simp add: IH)
    next
      case notin: False
      have "\<not> list_ex (\<lambda>e. take 100 (qq_question e) = take 100 (clean_html (question_text q))) acc"
      proof
        assume "list_ex (\<lambda>e. take 100 (qq_question e) = take 100 (clean_html (question_text q))) acc"
        then obtain e where "e \<in> set acc"
          and "first100 e = take 100 (clean_html (question_text q))"
          by (auto simp: list_ex_iff first100_def)
        then have "take 100 (clean_html (question_text q)) \<in> first100 ` set acc"
          by (metis imageI)
        with notin show False ..
      qed
      with False have a: "add_question t n q acc = acc @ [question_entry t n q]"
        by (simp add: add_question_def Let_def)
      have "filter (\<lambda>e. first100 e \<notin> first100 ` set (acc @ [question_entry t n q])) ?E
          = filter (\<lambda>y. first100 y \<noteq> first100 (question_entry t n q))
              (filter (\<lambda>e. first100 e \<notin> first100 ` set acc) ?E)"
        by (auto intro: filter_cong)
      with a notin False f show ?thesis by (simp add: IH)
    qed
  qed
qed

text \<open>
  Claim C6, as the code has it. \<^verbatim>\<open>get_all_content_before_exam\<close> compares no texts: its result
  is, module by module and item by item, every retrieved item whose cleaned text is not
  empty. The comparison of the first 100 characters is made by \<^verbatim>\<open>get_quiz_questions\<close> only:
  when every question is plain, no two entries it keeps share their first 100 characters,
  and the question loop keeps the first question of each such prefix.
\<close>

theorem prefix_dedup_scope:
  "get_all_content_before_exam w modules_response tz exam_date
     = concat (map (\<lambda>m. List.map_filter (item_content w (get_default (mod_name m) ''Module''))
                            (mod_items m))
                 (get_modules_before_exam modules_response tz exam_date))
   \<and> (plain_replies qw \<longrightarrow> distinct (map first100 (get_quiz_questions qw tz exam_date)))
   \<and> ((\<forall>q \<in> set qs. plain_question q) \<longrightarrow>
        questions_loop title attempt_num qs []
          = first_seen first100
              (map (question_entry title attempt_num)
                 (filter (\<lambda>q. clean_html (question_text q) \<noteq> []) qs)))"
proof -
  have 1: "get_all_content_before_exam w modules_response tz exam_date
     = concat (map (\<lambda>m. List.map_filter (item_content w (get_default (mod_name m) ''Module''))
                            (mod_items m))
                 (get_modules_before_exam modules_response tz exam_date))"
    by (simp add: get_all_content_before_exam_def content_modules_loop_eq)
  have 3: "questions_loop title attempt_num qs []
          = first_seen first100
              (map (question_entry title attempt_num)
                 (filter (\<lambda>q. clean_html (question_text q) \<noteq> []) qs))"
    if "\<forall>q \<in> set qs. plain_question q"
    using questions_loop_first_seen [OF that, of title attempt_num "[]"] by simp
  from 1 3 show ?thesis by (simp add: get_quiz_questions_distinct)
qed

lemmas quiz_eval = get_quiz_questions_def quiz_attempts_def add_question_def question_entry_def
  answers_info_def plain_text_question_def econ_quiz_def get_default_def Let_def

text \<open>
  "What is <b>GDP</b>?" and "What is GDP?" have the same cleaned text; the first is kept.
\<close>

theorem prefix_dedup_scope_witness:
  "distinct (map first100 (get_quiz_questions econ_quiz pst (mk_datetime 2026 2 1 15 59 0)))
   \<and> get_quiz_questions econ_quiz pst (mk_datetime 2026 2 1 15 59 0)
     = [\<lparr>qq_quiz = ''Quiz 1'', qq_question = ''What is GDP?'', qq_type = ''essay_question'',
          qq_attempt = 2\<rparr>,
        \<lparr>qq_quiz = ''Quiz 1'', qq_question = ''Define inflation'', qq_type = ''essay_question'',
          qq_attempt = 2\<rparr>]"
proof -
  have p: "plain_replies econ_quiz"
    by (auto simp: plain_replies_def econ_quiz_def plain_question_def answers_info_def
        plain_text_question_def)
  have v: "get_quiz_questions econ_quiz pst (mk_datetime 2026 2 1 15 59 0)
     = [\<lparr>qq_quiz = ''Quiz 1'', qq_question = ''What is GDP?'', qq_type = ''essay_question'',
          qq_attempt = 2\<rparr>,
        \<lparr>qq_quiz = ''Quiz 1'', qq_question = ''Define inflation'', qq_type = ''essay_question'',
          qq_attempt = 2\<rparr>]"
    by (simp add: quiz_eval clean_eval truthy_def)
  from prefix_dedup_scope [where qw = econ_quiz and tz = pst and exam_date = "mk_datetime 2026 2 1 15 59 0"] p
  have "distinct (map first100 (get_quiz_questions econ_quiz pst (mk_datetime 2026 2 1 15 59 0)))"
    by blast
  then show ?thesis using v by (rule conjI)
qed

text \<open>
  Against claim C6 as stated: two pages of one module with the same cleaned text are both
  in the result of \<^verbatim>\<open>get_all_content_before_exam\<close>.
\<close>

theorem duplicate_pages_both_retained:
  "get_all_content_before_exam lecture_pages
      (Response 200 [\<lparr>mod_name = Some ''Week 1'', unlock_at = None,
                       mod_items = [page_item ''pages/supply'', page_item ''pages/supply-copy'']\<rparr>])
      pst (mk_datetime 2026 2 1 15 59 0)
   = [\<lparr>content_type = ''Page'', content_module = ''Week 1'', content_title = ''supply'',
        content_text = ''Supply and demand''\<rparr>,
      \<lparr>content_type = ''Page'', content_module = ''Week 1'', content_title = ''supply-copy'',
        content_text = ''Supply and demand''\<rparr>]"
  by (simp add: get_all_content_before_exam_def get_modules_before_exam_def module_kept_def
      exclude_keywords_def module_indicators_def get_default_def lower_def lower_char_def
      item_content_def get_page_content_def last_segment_def page_item_def lecture_pages_def
      clean_eval Let_def)

subsection \<open>The importance classifier on an exam without points\<close>

text \<open>
  Claim C5 says that every item outside the three rules is not major. Canvas sends
  \<^verbatim>\<open>"points_possible": null\<close> for an assignment that is not graded; the collector stores
  \<^verbatim>\<open>None\<close> for it, the default 0 being for a missing key only. For "Exam 2" without a points
  value \<^verbatim>\<open>is_major_test\<close> returns neither answer: it raises \<^verbatim>\<open>TypeError\<close>, and so does the
  statement of \<^verbatim>\<open>main\<close> that lists the major tests among the items due soon.
\<close>

theorem ungraded_exam_raises:
  "points_possible (course_assignment_record writing ungraded_exam) = None
   \<and> is_major_test (course_assignment_record writing ungraded_exam) = Inl TypeError
   \<and> major_tests
        (filter_due_next_3_days pst (mk_datetime 2026 1 1 0 0 0)
           (collect_all_assignments
              [campus (Response 200 []) (Response 200 [writing]) (Response 200 [ungraded_exam])]))
       = Inl TypeError"
proof -
  let ?x = "course_assignment_record writing ungraded_exam"
  have p: "points_possible ?x = None"
    by (simp add: course_assignment_record_def ungraded_exam_def get_or_def)
  have m: "is_major_test ?x = Inl TypeError"
    by (simp add: is_major_test_def exam_with_points_def major_keywords_def
        course_assignment_record_def ungraded_exam_def get_or_def get_default_def lower_def
        lower_char_def)
  have c: "collect_all_assignments
              [campus (Response 200 []) (Response 200 [writing]) (Response 200 [ungraded_exam])]
           = [?x]"
    by (simp add: collect_all_assignments_def get_canvas_all_items_def
        get_canvas_all_items_try_def campus_def writing_def get_default_def truthy_def
        track_def ungraded_exam_def)
  have d: "due_at ?x = Some ''2026-01-02T10:00:00Z''"
    by (simp add: course_assignment_record_def ungraded_exam_def)
  have l: "due_local pst ''2026-01-02T10:00:00Z'' = Some (mk_datetime 2026 1 2 2 0 0)"
    by (simp add: due_local_def strptime_eval datetime_eval astimezone_def pst_def
        datetime_min_def datetime_max_def)
  have f: "filter_due_next_3_days pst (mk_datetime 2026 1 1 0 0 0) [?x]
      = [\<lparr>item = ?x, due_datetime_parsed = mk_datetime 2026 1 2 2 0 0,
           due_date_parsed = date_of (mk_datetime 2026 1 2 2 0 0)\<rparr>]"
    by (simp add: filter_due_next_3_days_def due_soon_entry_def d l)
       (simp add: datetime_eval timedelta_def)
  from m have "major_tests [\<lparr>item = ?x, due_datetime_parsed = mk_datetime 2026 1 2 2 0 0,
           due_date_parsed = date_of (mk_datetime 2026 1 2 2 0 0)\<rparr>] = Inl TypeError"
    by simp
  with p m c f show ?thesis by simp
qed

end
